theory Spec2Isabelle
  imports Main "HOL-Library.Word"
begin

section \<open>Data model of merge.c\<close>

text \<open>
  The development embeds \<^verbatim>\<open>src/merge.c\<close> of pg_probackup: the MERGE command
  (\<^verbatim>\<open>do_merge\<close>), the merge of one pair of backups (\<^verbatim>\<open>merge_backups\<close>), the
  worker (\<^verbatim>\<open>merge_files\<close>) and the renumbering of extra directories
  (\<^verbatim>\<open>get_extra_index\<close>, \<^verbatim>\<open>reorder_extra_dirs\<close>, \<^verbatim>\<open>remove_dir_with_files\<close>).

  The header \<^verbatim>\<open>pg_probackup.h\<close> and the other translation units are not part of the
  sources at hand. Types are declared with the fields and enumerators that merge.c
  names; every function and constant that merge.c only calls is a field of the
  record \<open>env\<close> below, so that each theorem holds for every behaviour of them.
\<close>

type_synonym time_t = int
type_synonym int64 = "64 word"
type_synonym XLogRecPtr = "64 word"

text \<open>Enumerators named in merge.c; the last constructor stands for the remaining ones.\<close>

datatype BackupStatus =
    BACKUP_STATUS_OK
  | BACKUP_STATUS_MERGING
  | BACKUP_STATUS_DELETING
  | BACKUP_STATUS_CORRUPT
  | BACKUP_STATUS_OTHER string

datatype BackupMode =
    BACKUP_MODE_FULL
  | BACKUP_MODE_DIFF_DELTA
  | BACKUP_MODE_OTHER string

datatype CompressAlg =
    PGLZ_COMPRESS
  | ZLIB_COMPRESS
  | COMPRESS_OTHER string

text \<open>The file type bits of \<^verbatim>\<open>mode_t\<close>, read by the macros S_ISDIR and S_ISREG.\<close>

datatype mode_t = S_IFREG | S_IFDIR | S_IFLNK | S_IFOTHER

definition S_ISDIR :: "mode_t \<Rightarrow> bool" where
  "S_ISDIR m = (m = S_IFDIR)"

definition S_ISREG :: "mode_t \<Rightarrow> bool" where
  "S_ISREG m = (m = S_IFREG)"

text \<open>
  Paths are built by \<^verbatim>\<open>pgBackupGetPath\<close>, \<^verbatim>\<open>makeExtraDirPathByNum\<close>,
  \<^verbatim>\<open>join_path_components\<close> and \<^verbatim>\<open>snprintf("%s_tmp")\<close>; a path is kept as the term
  that says how it was built. \<open>BackupPath t s\<close> is the path that \<^verbatim>\<open>pgBackupGetPath\<close>
  gives for the backup with start time \<open>t\<close> and the subdirectory \<open>s\<close>, which is NULL
  or one of the three names that merge.c passes. \<open>Rel\<close> is a path relative to a
  backup root, as stored in a file list.
\<close>

datatype subdir = DATABASE_DIR | EXTRA_DIR | DATABASE_FILE_LIST

datatype fpath =
    Rel string
  | BackupPath time_t "subdir option"
  | ExtraDirPathByNum fpath int
  | Join fpath fpath
  | Tmp fpath

record pgBackup =
  start_time :: time_t
  status :: BackupStatus
  backup_mode :: BackupMode
  parent_backup :: time_t
  start_lsn :: XLogRecPtr
  stop_lsn :: XLogRecPtr
  recovery_time :: time_t
  recovery_xid :: "32 word"
  stream :: bool
  data_bytes :: int64
  wal_bytes :: int64
  backup_compress_alg :: CompressAlg
  compress_level :: int
  extra_dir_str :: "string option"
  program_version :: string

record pgFile =
  path :: fpath
  name :: string
  mode :: mode_t
  file_size :: "64 word"
  write_size :: int64
  n_blocks :: int
  crc :: "32 word"
  compress_alg :: CompressAlg
  is_datafile :: bool
  is_cfs :: bool
  extra_dir_num :: int
  lock :: bool

text \<open>Every \<^verbatim>\<open>elog(ERROR, ...)\<close> of merge.c, the failed \<^verbatim>\<open>Assert\<close>, and the other
  ways the process can stop: a NULL pointer read as an array or a string, a division
  by zero, and an error raised inside a collaborator.\<close>

datatype error =
    BackupIdNotSpecified
  | InstanceNotSpecified
  | BackupHasStatus time_t BackupStatus
  | BackupIsFull time_t
  | TargetNotFound time_t
  | ParentFullNotFound time_t
  | MergingFailed time_t
  | InterruptMerging
  | DataFilesMergingFailed
  | CouldNotRename fpath fpath
  | InterruptedDuringMerging
  | CouldNotRemoveTemp fpath
  | AssertionFailed
  | NullPointer
  | DivisionByZero
  | Collaborator string

text \<open>What the program does to the catalog and the disk, in the order it does it.
  The list of events so far stands for the state of the disk: every collaborator
  that reads the disk takes it as its first argument.\<close>

datatype event =
    CallMergeBackups nat nat
  | PgBackupValidate time_t BackupStatus
  | WriteBackupStatus time_t BackupStatus
  | CreateDataDirectories fpath fpath
  | DirCreateDir fpath
  | RestoreDataFile fpath fpath bool bool
  | BackupDataFile fpath fpath
  | Unlink fpath
  | CopyPgcontrolFile fpath fpath fpath
  | CopyFile fpath fpath fpath
  | WriteBackupFilelist time_t
  | WriteBackup time_t
  | DeleteBackupFiles time_t
  | PgFileDelete fpath
  | Rename fpath fpath
  | ElogError error

record env =
  INVALID_BACKUP_ID :: time_t
  BYTES_INVALID :: int64
  USE_ASSERT_CHECKING :: bool
  instance_name :: "string option"
  num_threads :: nat
  xlog_seg_size :: "32 word"
  interrupted :: "event list \<Rightarrow> bool"
  pgBackupValidate :: "event list \<Rightarrow> pgBackup \<Rightarrow> BackupStatus"
  dir_read_file_list :: "event list \<Rightarrow> fpath \<Rightarrow> pgFile list"
  dir_list_file :: "event list \<Rightarrow> fpath \<Rightarrow> pgFile list"
  qsort_PathDesc :: "pgFile list \<Rightarrow> pgFile list"
  qsort_Size :: "pgFile list \<Rightarrow> pgFile list"
  make_extra_directory_list :: "string \<Rightarrow> string list"
  backup_contains_extra :: "string option \<Rightarrow> string list option \<Rightarrow> bool"
  restore_data_file :: "event list \<Rightarrow> fpath \<Rightarrow> pgFile \<Rightarrow> bool \<Rightarrow> bool \<Rightarrow> string \<Rightarrow> error option"
  backup_data_file :: "event list \<Rightarrow> fpath \<Rightarrow> pgFile \<Rightarrow> pgBackup \<Rightarrow> error + pgFile"
  copy_pgcontrol_file :: "event list \<Rightarrow> fpath \<Rightarrow> fpath \<Rightarrow> pgFile \<Rightarrow> error + pgFile"
  copy_file :: "event list \<Rightarrow> fpath \<Rightarrow> fpath \<Rightarrow> pgFile \<Rightarrow> error + pgFile"
  pgFileSize :: "event list \<Rightarrow> fpath \<Rightarrow> 64 word"
  pgFileGetCRC :: "event list \<Rightarrow> fpath \<Rightarrow> 32 word"
  unlink :: "event list \<Rightarrow> fpath \<Rightarrow> int"
  rename :: "event list \<Rightarrow> fpath \<Rightarrow> fpath \<Rightarrow> int"

section \<open>Extra directories: get_extra_index, remove_dir_with_files, reorder_extra_dirs\<close>

text \<open>The loop of \<^verbatim>\<open>get_extra_index\<close> from index \<open>i\<close> on: the 1-based index of the
  first element equal to the key, or -1.\<close>

fun get_extra_index_from :: "string \<Rightarrow> string list \<Rightarrow> int \<Rightarrow> int" where
  "get_extra_index_from key [] i = -1"
| "get_extra_index_from key (x # xs) i =
     (if key = x then i + 1 else get_extra_index_from key xs (i + 1))"

definition get_extra_index :: "string \<Rightarrow> string list option \<Rightarrow> int" where
  "get_extra_index key list =
     (case list of
        None \<Rightarrow> -1
      | Some xs \<Rightarrow> get_extra_index_from key xs 0)"

text \<open>\<^verbatim>\<open>remove_dir_with_files\<close>: list the directory (itself included), sort the list
  leaf first, delete every entry.\<close>

definition remove_dir_with_files :: "env \<Rightarrow> fpath \<Rightarrow> event list \<Rightarrow> event list" where
  "remove_dir_with_files e p h =
     (let files = qsort_PathDesc e (dir_list_file e h p)
      in foldl (\<lambda>h file. h @ [PgFileDelete (path file)]) h files)"

text \<open>The loop of \<^verbatim>\<open>reorder_extra_dirs\<close> over the elements of \<open>to_extra\<close> that are
  left, \<open>i\<close> being the index of the first of them.\<close>

fun reorder_extra_dirs_from ::
  "env \<Rightarrow> fpath \<Rightarrow> string list \<Rightarrow> int \<Rightarrow> string list option \<Rightarrow> event list \<Rightarrow> error + event list"
where
  "reorder_extra_dirs_from e extradir_template [] i from_extra h = Inr h"
| "reorder_extra_dirs_from e extradir_template (x # xs) i from_extra h =
     (let from_num = get_extra_index x from_extra
      in if from_num = -1 then
           (let old_path = ExtraDirPathByNum extradir_template (i + 1)
            in reorder_extra_dirs_from e extradir_template xs (i + 1) from_extra
                 (remove_dir_with_files e old_path h))
         else if from_num \<noteq> i + 1 then
           (let old_path = ExtraDirPathByNum extradir_template (i + 1);
                new_path = ExtraDirPathByNum extradir_template from_num
            in if rename e h old_path new_path = -1
               then Inl (CouldNotRename old_path new_path)
               else reorder_extra_dirs_from e extradir_template xs (i + 1) from_extra
                      (h @ [Rename old_path new_path]))
         else reorder_extra_dirs_from e extradir_template xs (i + 1) from_extra h)"

definition reorder_extra_dirs ::
  "env \<Rightarrow> pgBackup \<Rightarrow> string list \<Rightarrow> string list option \<Rightarrow> event list \<Rightarrow> error + event list"
where
  "reorder_extra_dirs e to_backup to_extra from_extra h =
     reorder_extra_dirs_from e (BackupPath (start_time to_backup) (Some EXTRA_DIR)) to_extra 0 from_extra h"


section \<open>The worker: merge_files\<close>

text \<open>The arguments of a worker. The shared list \<^verbatim>\<open>files\<close> and the result \<^verbatim>\<open>ret\<close> of
  the C structure are the argument and the result of \<open>merge_files\<close> below.\<close>

record merge_files_arg =
  to_files :: "pgFile list"
  from_extra :: "string list option"
  to_backup :: pgBackup
  from_backup :: pgBackup
  to_root :: fpath
  from_root :: fpath
  to_extra_prefix :: fpath
  from_extra_prefix :: fpath

text \<open>Modelled from the spec: \<^verbatim>\<open>parray_bsearch\<close> and the comparison
  \<^verbatim>\<open>pgFileComparePathDesc\<close> are not in merge.c. The spec calls the entry found
  "a same-path entry" of a manifest ordered by path.\<close>

definition parray_bsearch :: "pgFile list \<Rightarrow> pgFile \<Rightarrow> pgFile option" where
  "parray_bsearch array key = find (\<lambda>g. path g = path key) array"

text \<open>\<^verbatim>\<open>parray_get\<close> on an array that is not NULL: the element, or NULL beyond the
  elements in use (the index is unsigned, so a negative one is beyond them).\<close>

definition parray_get :: "'a list \<Rightarrow> int \<Rightarrow> 'a option" where
  "parray_get array i = (if 0 \<le> i \<and> nat i < length array then Some (array ! nat i) else None)"

text \<open>The result of an action on an entry: the entry when the action completes, or
  the error that stopped it together with the entry as the action leaves it. A
  collaborator that fails is taken to leave the entry as it was passed to it.\<close>

type_synonym action_result = "(error \<times> pgFile) + pgFile"

text \<open>Lines 514-612: a data file that is not a CFS file.\<close>

definition merge_data_file ::
  "env \<Rightarrow> merge_files_arg \<Rightarrow> pgFile option \<Rightarrow> fpath \<Rightarrow> pgFile \<Rightarrow> event list
     \<Rightarrow> action_result \<times> event list"
where
  "merge_data_file e arg to_file prev_file_path file h =
     (let to_file_path = Join (to_root arg) prev_file_path;
          delta = (backup_mode (from_backup arg) = BACKUP_MODE_DIFF_DELTA)
      in if backup_compress_alg (to_backup arg) = PGLZ_COMPRESS \<or>
            backup_compress_alg (to_backup arg) = ZLIB_COMPRESS then
           (let tmp_file_path = Tmp to_file_path;
                target =
                  (case to_file of
                     Some t \<Rightarrow>
                       (case restore_data_file e h tmp_file_path (t\<lparr>path := to_file_path\<rparr>)
                               False False (program_version (to_backup arg)) of
                          Some err \<Rightarrow> Inl err
                        | None \<Rightarrow> Inr (h @ [RestoreDataFile tmp_file_path to_file_path False False]))
                   | None \<Rightarrow> Inr h)
            in case target of
                 Inl err \<Rightarrow> (Inl (err, file), h)
               | Inr h1 \<Rightarrow>
                   (case restore_data_file e h1 tmp_file_path file delta False
                           (program_version (from_backup arg)) of
                      Some err \<Rightarrow> (Inl (err, file), h1)
                    | None \<Rightarrow>
                        (let h2 = h1 @ [RestoreDataFile tmp_file_path (path file) delta False];
                             prev_path = path file;
                             file1 = file\<lparr>path := tmp_file_path\<rparr>;
                             file2 = file1\<lparr>file_size := pgFileSize e h2 (path file1)\<rparr>
                         in case backup_data_file e h2 to_file_path file2 (to_backup arg) of
                              Inl err \<Rightarrow> (Inl (err, file2), h2)
                            | Inr file3 \<Rightarrow>
                                (let h3 = h2 @ [BackupDataFile to_file_path tmp_file_path];
                                     file4 = file3\<lparr>path := prev_path\<rparr>
                                 in if unlink e h3 tmp_file_path \<noteq> 0
                                    then (Inl (CouldNotRemoveTemp tmp_file_path, file4), h3)
                                    else (Inr file4, h3 @ [Unlink tmp_file_path])))))
         else
           (case restore_data_file e h to_file_path file delta True
                   (program_version (from_backup arg)) of
              Some err \<Rightarrow> (Inl (err, file), h)
            | None \<Rightarrow>
                (let h1 = h @ [RestoreDataFile to_file_path (path file) delta True]
                 in (Inr (file\<lparr>write_size := pgFileSize e h1 to_file_path,
                                crc := pgFileGetCRC e h1 to_file_path\<rparr>), h1))))"

text \<open>Lines 615-631: a file of an extra directory. \<^verbatim>\<open>parray_get\<close> reads
  \<^verbatim>\<open>argument->from_extra\<close> before the assertion on it, so a NULL list is read as an
  array. The string it returns is the key looked up, again in
  \<^verbatim>\<open>argument->from_extra\<close>. When the index is beyond the list the key is NULL: on an
  empty list the loop of \<^verbatim>\<open>get_extra_index\<close> compares nothing and returns -1, so the
  file is copied into the container numbered -1; on a list with elements \<^verbatim>\<open>strcmp\<close>
  reads the NULL key. Reading through a NULL pointer stops the whole process, which
  the error \<open>NullPointer\<close> stands for.\<close>

definition merge_extra_file ::
  "env \<Rightarrow> merge_files_arg \<Rightarrow> pgFile \<Rightarrow> event list \<Rightarrow> action_result \<times> event list"
where
  "merge_extra_file e arg file h =
     (case from_extra arg of
        None \<Rightarrow> (Inl (NullPointer, file), h)
      | Some xs \<Rightarrow>
          (case (case parray_get xs (extra_dir_num file - 1) of
                   None \<Rightarrow> (if xs = [] then Inr (-1) else Inl NullPointer)
                 | Some file_extra_path \<Rightarrow>
                     Inr (get_extra_index file_extra_path (from_extra arg))) of
             Inl err \<Rightarrow> (Inl (err, file), h)
           | Inr new_dir_num \<Rightarrow>
               (let from_root' = ExtraDirPathByNum (from_extra_prefix arg) (extra_dir_num file);
                    to_root' = ExtraDirPathByNum (to_extra_prefix arg) new_dir_num
                in case copy_file e h from_root' to_root' file of
                     Inl err \<Rightarrow> (Inl (err, file), h)
                   | Inr file1 \<Rightarrow> (Inr file1, h @ [CopyFile from_root' to_root' (path file)]))))"

text \<open>Lines 514-633: the chain of actions on a file that is not skipped.\<close>

definition merge_action ::
  "env \<Rightarrow> merge_files_arg \<Rightarrow> pgFile option \<Rightarrow> fpath \<Rightarrow> pgFile \<Rightarrow> event list
     \<Rightarrow> action_result \<times> event list"
where
  "merge_action e arg to_file prev_file_path file h =
     (if is_datafile file \<and> \<not> is_cfs file then
        merge_data_file e arg to_file prev_file_path file h
      else if name file = ''pg_control'' then
        (case copy_pgcontrol_file e h (from_root arg) (to_root arg) file of
           Inl err \<Rightarrow> (Inl (err, file), h)
         | Inr file1 \<Rightarrow>
             (Inr file1, h @ [CopyPgcontrolFile (from_root arg) (to_root arg) (path file)]))
      else if extra_dir_num file \<noteq> 0 then
        merge_extra_file e arg file h
      else
        (case copy_file e h (from_root arg) (to_root arg) file of
           Inl err \<Rightarrow> (Inl (err, file), h)
         | Inr file1 \<Rightarrow> (Inr file1, h @ [CopyFile (from_root arg) (to_root arg) (path file)])))"

text \<open>Lines 456-646: the body of the worker's loop for a file it has claimed, after
  the check for an interrupt. An action that is stopped leaves the entry with the
  absolute path of line 505: line 646, which restores the relative path, is not
  reached.\<close>

definition merge_file ::
  "env \<Rightarrow> merge_files_arg \<Rightarrow> pgFile \<Rightarrow> event list \<Rightarrow> action_result \<times> event list"
where
  "merge_file e arg file h =
     (if S_ISDIR (mode file) then (Inr file, h)
      else
        (let to_file = parray_bsearch (to_files arg) file
         in if write_size file = BYTES_INVALID e \<and> n_blocks file = -1 then
              (case to_file of
                 Some t \<Rightarrow>
                   (Inr (file\<lparr>compress_alg := compress_alg t,
                              write_size := write_size t,
                              crc := crc t\<rparr>), h)
               | None \<Rightarrow> (Inr file, h))
            else
              (let from_file_path =
                     (if extra_dir_num file \<noteq> 0
                      then Join (ExtraDirPathByNum (from_extra_prefix arg) (extra_dir_num file))
                             (path file)
                      else Join (from_root arg) (path file));
                   prev_file_path = path file;
                   file1 = file\<lparr>path := from_file_path\<rparr>
               in case merge_action e arg to_file prev_file_path file1 h of
                    (Inl stopped, h1) \<Rightarrow> (Inl stopped, h1)
                  | (Inr file2, h1) \<Rightarrow>
                      (Inr (file2\<lparr>compress_alg := backup_compress_alg (to_backup arg),
                                  path := prev_file_path\<rparr>), h1))))"

text \<open>
  The loop of \<^verbatim>\<open>merge_files\<close> over the shared list. The result is how the thread
  ends, the list as the worker leaves it, and the events. A thread ends with its
  \<^verbatim>\<open>argument->ret\<close>, which is 1 when the thread is created and becomes 0 only after
  the loop: \<^verbatim>\<open>elog(ERROR, ...)\<close> does not return, so an error ends the thread inside
  the loop with \<^verbatim>\<open>ret\<close> 1. A read through a NULL pointer ends the thread and the
  process with it (\<open>Inl\<close>).
\<close>

fun merge_files ::
  "env \<Rightarrow> merge_files_arg \<Rightarrow> pgFile list \<Rightarrow> event list
     \<Rightarrow> (error + int) \<times> pgFile list \<times> event list"
where
  "merge_files e arg [] h = (Inr 0, [], h)"
| "merge_files e arg (file # rest) h =
     (if lock file then
        (case merge_files e arg rest h of (ret, rest1, h1) \<Rightarrow> (ret, file # rest1, h1))
      else
        (let file0 = file\<lparr>lock := True\<rparr>
         in if interrupted e h then
              (Inr 1, file0 # rest, h @ [ElogError InterruptedDuringMerging])
            else
              (case merge_file e arg file0 h of
                 (Inl (err, left), h1) \<Rightarrow>
                   if err = NullPointer then (Inl err, left # rest, h1)
                   else (Inr 1, left # rest, h1 @ [ElogError err])
               | (Inr file1, h1) \<Rightarrow>
                   (case merge_files e arg rest h1 of
                      (ret, rest1, h2) \<Rightarrow> (ret, file1 # rest1, h2)))))"

section \<open>One pair of backups: merge_backups\<close>

text \<open>Lines 184-204: the destination is validated only in status OK, the source
  always, after an assertion on its status that a build without assertion checking
  does not evaluate.\<close>

definition validate_backups ::
  "env \<Rightarrow> pgBackup \<Rightarrow> pgBackup \<Rightarrow> event list \<Rightarrow> error + pgBackup \<times> pgBackup \<times> event list"
where
  "validate_backups e to_b from_b h =
     (let (to1, h1) =
            (if status to_b = BACKUP_STATUS_OK
             then (to_b\<lparr>status := pgBackupValidate e h to_b\<rparr>,
                   h @ [PgBackupValidate (start_time to_b) (status to_b)])
             else (to_b, h))
      in if status to_b = BACKUP_STATUS_OK \<and> status to1 = BACKUP_STATUS_CORRUPT then
           Inl InterruptMerging
         else if USE_ASSERT_CHECKING e \<and>
                 \<not> (status from_b = BACKUP_STATUS_OK \<or> status from_b = BACKUP_STATUS_MERGING) then
           Inl AssertionFailed
         else
           (let from1 = from_b\<lparr>status := pgBackupValidate e h1 from_b\<rparr>;
                h2 = h1 @ [PgBackupValidate (start_time from_b) (status from_b)]
            in if status from1 = BACKUP_STATUS_CORRUPT then Inl InterruptMerging
               else Inr (to1, from1, h2)))"

text \<open>Lines 268-285: the directories of extra directories are created and the claim
  flag of every entry is cleared.\<close>

fun setup_threads :: "fpath \<Rightarrow> pgFile list \<Rightarrow> event list \<Rightarrow> pgFile list \<times> event list" where
  "setup_threads to_extra_prefix' [] h = ([], h)"
| "setup_threads to_extra_prefix' (file # rest) h =
     (let h1 =
            (if extra_dir_num file \<noteq> 0 \<and> S_ISDIR (mode file)
             then h @ [DirCreateDir
                         (Join (ExtraDirPathByNum to_extra_prefix' (extra_dir_num file)) (path file))]
             else h)
      in case setup_threads to_extra_prefix' rest h1 of
           (rest1, h2) \<Rightarrow> (file\<lparr>lock := False\<rparr> # rest1, h2))"

text \<open>Lines 287-314: the workers. The pool is taken in the schedule in which every
  thread runs to its end as soon as it is created; the result holds the \<^verbatim>\<open>ret\<close> of
  every thread, or the error that stopped the process inside a thread.\<close>

fun run_threads ::
  "env \<Rightarrow> merge_files_arg \<Rightarrow> nat \<Rightarrow> pgFile list \<Rightarrow> event list
     \<Rightarrow> (error + int list) \<times> pgFile list \<times> event list"
where
  "run_threads e arg 0 files h = (Inr [], files, h)"
| "run_threads e arg (Suc n) files h =
     (case merge_files e arg files h of
        (Inl err, files1, h1) \<Rightarrow> (Inl err, files1, h1)
      | (Inr ret, files1, h1) \<Rightarrow>
          (case run_threads e arg n files1 h1 of
             (Inl err, files2, h2) \<Rightarrow> (Inl err, files2, h2)
           | (Inr rets, files2, h2) \<Rightarrow> (Inr (ret # rets), files2, h2)))"

text \<open>Lines 308-316: the loop that joins the threads and the test after it.\<close>

fun wait_threads :: "int list \<Rightarrow> bool \<Rightarrow> bool" where
  "wait_threads [] merge_isok = merge_isok"
| "wait_threads (ret # rets) merge_isok =
     wait_threads rets (if ret = 1 then False else merge_isok)"

text \<open>Lines 287-316: the workers are started and joined; one \<^verbatim>\<open>ret\<close> equal to 1
  fails the merge.\<close>

definition merge_all_files ::
  "env \<Rightarrow> merge_files_arg \<Rightarrow> pgFile list \<Rightarrow> event list \<Rightarrow> error + pgFile list \<times> event list"
where
  "merge_all_files e arg files h =
     (case run_threads e arg (num_threads e) files h of
        (Inl err, files1, h1) \<Rightarrow> Inl err
      | (Inr rets, files1, h1) \<Rightarrow>
          if \<not> wait_threads rets True then Inl DataFilesMergingFailed
          else Inr (files1, h1))"

text \<open>Lines 336-347: the size of the merged backup.\<close>

fun sum_data_bytes :: "pgFile list \<Rightarrow> int64 \<Rightarrow> int64" where
  "sum_data_bytes [] bytes = bytes"
| "sum_data_bytes (file # rest) bytes =
     sum_data_bytes rest
       (if S_ISDIR (mode file) then bytes + 4096
        else if S_ISREG (mode file) then bytes + write_size file
        else bytes)"

text \<open>Lines 318-354: the metadata of the destination, and the source giving up its
  list of extra directories. The segment size is a 32-bit unsigned value and the
  positions in the log are 64-bit unsigned values, so the product is computed in 64
  bits without sign.\<close>

definition update_backup_metadata ::
  "env \<Rightarrow> pgBackup \<Rightarrow> pgBackup \<Rightarrow> pgFile list \<Rightarrow> error + pgBackup \<times> pgBackup"
where
  "update_backup_metadata e to_b from_b files =
     (let to1 = to_b\<lparr>status := BACKUP_STATUS_OK,
                     parent_backup := INVALID_BACKUP_ID e,
                     start_lsn := start_lsn from_b,
                     stop_lsn := stop_lsn from_b,
                     recovery_time := recovery_time from_b,
                     recovery_xid := recovery_xid from_b,
                     extra_dir_str := extra_dir_str from_b\<rparr>;
          from1 = from_b\<lparr>extra_dir_str := None\<rparr>;
          to2 = to1\<lparr>stream := (stream to1 \<and> stream from1)\<rparr>;
          to3 = to2\<lparr>data_bytes := sum_data_bytes files 0\<rparr>;
          seg = (ucast (xlog_seg_size e) :: 64 word)
      in if \<not> stream to3 then
           (if seg = 0 then Inl DivisionByZero
            else Inr (to3\<lparr>wal_bytes :=
                             seg * (stop_lsn to3 div seg - start_lsn to3 div seg + 1)\<rparr>, from1))
         else Inr (to3\<lparr>wal_bytes := BYTES_INVALID e\<rparr>, from1))"

text \<open>Lines 371-396: the files of the destination that the source does not have are
  deleted. \<open>to_extra\<close> is read as an array for every entry with a nonzero
  \<^verbatim>\<open>extra_dir_num\<close>.\<close>

fun delete_stale_files ::
  "env \<Rightarrow> fpath \<Rightarrow> pgFile list \<Rightarrow> string list option \<Rightarrow> string list option \<Rightarrow> pgFile list
     \<Rightarrow> event list \<Rightarrow> error + event list"
where
  "delete_stale_files e to_database_path files to_extra from_extra' [] h = Inr h"
| "delete_stale_files e to_database_path files to_extra from_extra' (file # rest) h =
     (case (if extra_dir_num file \<noteq> 0
            then (case to_extra of
                    None \<Rightarrow> Inl NullPointer
                  | Some xs \<Rightarrow>
                      Inr (backup_contains_extra e (parray_get xs (extra_dir_num file - 1))
                             from_extra'))
            else Inr False) of
        Inl err \<Rightarrow> Inl err
      | Inr True \<Rightarrow> delete_stale_files e to_database_path files to_extra from_extra' rest h
      | Inr False \<Rightarrow>
          delete_stale_files e to_database_path files to_extra from_extra' rest
            (if parray_bsearch files file = None
             then h @ [PgFileDelete (Join to_database_path (path file))]
             else h))"

text \<open>Lines 360-410, from the label \<^verbatim>\<open>delete_source_backup\<close> on.\<close>

definition delete_source_backup ::
  "env \<Rightarrow> pgBackup \<Rightarrow> pgBackup \<Rightarrow> pgFile list \<Rightarrow> pgFile list \<Rightarrow> string list option
     \<Rightarrow> string list option \<Rightarrow> event list \<Rightarrow> error + pgBackup \<times> pgBackup \<times> event list"
where
  "delete_source_backup e to_b from_b to_files' files to_extra from_extra' h =
     (let to_backup_path = BackupPath (start_time to_b) None;
          to_database_path = BackupPath (start_time to_b) (Some DATABASE_DIR);
          from_backup_path = BackupPath (start_time from_b) None;
          h1 = h @ [DeleteBackupFiles (start_time from_b)];
          files1 = qsort_PathDesc e files
      in case delete_stale_files e to_database_path files1 to_extra from_extra' to_files' h1 of
           Inl err \<Rightarrow> Inl err
         | Inr h2 \<Rightarrow>
             if rename e h2 to_backup_path from_backup_path = -1
             then Inl (CouldNotRename to_backup_path from_backup_path)
             else
               (let h3 = h2 @ [Rename to_backup_path from_backup_path];
                    to1 = to_b\<lparr>start_time := start_time from_b\<rparr>
                in Inr (to1, from_b, h3 @ [WriteBackup (start_time to1)])))"

text \<open>Lines 244-358: what a merge does when the source is not in status DELETING.\<close>

definition merge_data ::
  "env \<Rightarrow> pgBackup \<Rightarrow> pgBackup \<Rightarrow> pgFile list \<Rightarrow> pgFile list \<Rightarrow> event list
     \<Rightarrow> error + pgBackup \<times> pgBackup \<times> pgFile list \<times> string list option \<times> string list option
                \<times> event list"
where
  "merge_data e to_b from_b to_files' files h =
     (let to_database_path = BackupPath (start_time to_b) (Some DATABASE_DIR);
          to_extra_prefix' = BackupPath (start_time to_b) (Some EXTRA_DIR);
          from_backup_path = BackupPath (start_time from_b) None;
          from_database_path = BackupPath (start_time from_b) (Some DATABASE_DIR);
          from_extra_prefix' = BackupPath (start_time from_b) (Some EXTRA_DIR);
          to1 = to_b\<lparr>status := BACKUP_STATUS_MERGING\<rparr>;
          h1 = h @ [WriteBackupStatus (start_time to1) (status to1)];
          from1 = from_b\<lparr>status := BACKUP_STATUS_MERGING\<rparr>;
          h2 = h1 @ [WriteBackupStatus (start_time from1) (status from1)];
          h3 = h2 @ [CreateDataDirectories to_database_path from_backup_path];
          to_extra = map_option (make_extra_directory_list e) (extra_dir_str to1);
          from_extra' = map_option (make_extra_directory_list e) (extra_dir_str from1)
      in case (case to_extra of
                 Some xs \<Rightarrow> reorder_extra_dirs e to1 xs from_extra' h3
               | None \<Rightarrow> Inr h3) of
           Inl err \<Rightarrow> Inl err
         | Inr h4 \<Rightarrow>
             (case setup_threads to_extra_prefix' files h4 of
                (files1, h5) \<Rightarrow>
                  (let arg = \<lparr>to_files = to_files', from_extra = from_extra',
                              to_backup = to1, from_backup = from1,
                              to_root = to_database_path, from_root = from_database_path,
                              to_extra_prefix = to_extra_prefix',
                              from_extra_prefix = from_extra_prefix'\<rparr>
                   in case merge_all_files e arg files1 h5 of
                        Inl err \<Rightarrow> Inl err
                      | Inr (files2, h6) \<Rightarrow>
                          (case update_backup_metadata e to1 from1 files2 of
                             Inl err \<Rightarrow> Inl err
                           | Inr (to2, from2) \<Rightarrow>
                               Inr (to2, from2, files2, to_extra, from_extra',
                                    h6 @ [WriteBackupFilelist (start_time to2),
                                          WriteBackup (start_time to2)])))))"

text \<open>
  \<^verbatim>\<open>merge_backups(to_backup, from_backup)\<close>. The two pointers are indices into the
  list of backups that \<^verbatim>\<open>do_merge\<close> holds, and the backups they point to are written
  back into it. The first event stands for the call.
\<close>

definition merge_backups ::
  "env \<Rightarrow> nat \<Rightarrow> nat \<Rightarrow> pgBackup list \<times> event list \<Rightarrow> error + pgBackup list \<times> event list"
where
  "merge_backups e to_idx from_idx st =
     (let backups = fst st;
          h = snd st @ [CallMergeBackups to_idx from_idx]
      in case validate_backups e (backups ! to_idx) (backups ! from_idx) h of
           Inl err \<Rightarrow> Inl err
         | Inr (to1, from1, h1) \<Rightarrow>
             (let to_files' = qsort_PathDesc e
                    (dir_read_file_list e h1 (BackupPath (start_time to1) (Some DATABASE_FILE_LIST)));
                  files = qsort_Size e
                    (dir_read_file_list e h1 (BackupPath (start_time from1) (Some DATABASE_FILE_LIST)))
              in case (if status from1 = BACKUP_STATUS_DELETING
                       then Inr (to1, from1, files, None, None, h1)
                       else merge_data e to1 from1 to_files' files h1) of
                   Inl err \<Rightarrow> Inl err
                 | Inr (to2, from2, files1, to_extra, from_extra', h2) \<Rightarrow>
                     (case delete_source_backup e to2 from2 to_files' files1 to_extra from_extra' h2 of
                        Inl err \<Rightarrow> Inl err
                      | Inr (to3, from3, h3) \<Rightarrow>
                          Inr (backups[from_idx := from3, to_idx := to3], h3))))"

section \<open>The MERGE command: do_merge\<close>

text \<open>Lines 76-124: the loop that finds the destination and its full parent, over the
  backups that are left, \<open>i\<close> being the index of the first of them. The pointers
  \<^verbatim>\<open>dest_backup\<close> and \<^verbatim>\<open>full_backup\<close> are the indices they point to, or \<open>None\<close>
  for NULL.\<close>

fun find_backups ::
  "time_t \<Rightarrow> pgBackup list \<Rightarrow> nat \<Rightarrow> nat option \<Rightarrow> time_t \<Rightarrow> error + nat option \<times> nat option"
where
  "find_backups backup_id [] i dest_backup prev_parent = Inr (dest_backup, None)"
| "find_backups backup_id (backup # rest) i dest_backup prev_parent =
     (if start_time backup > backup_id then
        find_backups backup_id rest (i + 1) dest_backup prev_parent
      else if start_time backup = backup_id \<and> dest_backup = None then
        (if status backup \<noteq> BACKUP_STATUS_OK \<and>
            status backup \<noteq> BACKUP_STATUS_MERGING \<and>
            status backup \<noteq> BACKUP_STATUS_DELETING then
           Inl (BackupHasStatus (start_time backup) (status backup))
         else if backup_mode backup = BACKUP_MODE_FULL then
           Inl (BackupIsFull (start_time backup))
         else find_backups backup_id rest (i + 1) (Some i) (parent_backup backup))
      else
        (if dest_backup = None then Inl (TargetNotFound backup_id)
         else if start_time backup \<noteq> prev_parent then
           find_backups backup_id rest (i + 1) dest_backup prev_parent
         else if status backup \<noteq> BACKUP_STATUS_OK \<and>
                 status backup \<noteq> BACKUP_STATUS_MERGING then
           Inl (BackupHasStatus (start_time backup) (status backup))
         else if dest_backup \<noteq> None \<and> backup_mode backup = BACKUP_MODE_FULL then
           Inr (dest_backup, Some i)
         else find_backups backup_id rest (i + 1) dest_backup (parent_backup backup)))"

text \<open>Lines 137-142: the loop that merges, \<open>i\<close> running from the index of the full
  backup down to the index after the destination's.\<close>

function merge_loop ::
  "env \<Rightarrow> nat \<Rightarrow> nat \<Rightarrow> nat \<Rightarrow> pgBackup list \<times> event list \<Rightarrow> error + pgBackup list \<times> event list"
where
  "merge_loop e full_backup_idx dest_backup_idx i st =
     (if i > dest_backup_idx then
        (case merge_backups e full_backup_idx (i - 1) st of
           Inl err \<Rightarrow> Inl err
         | Inr st1 \<Rightarrow> merge_loop e full_backup_idx dest_backup_idx (i - 1) st1)
      else Inr st)"
  by pat_completeness auto
termination
  by (relation "measure (\<lambda>(e, f, d, i, st). i)") auto

declare merge_loop.simps [simp del]

text \<open>\<^verbatim>\<open>do_merge\<close>, on the list that \<^verbatim>\<open>catalog_get_backup_list\<close> returns.\<close>

definition do_merge ::
  "env \<Rightarrow> pgBackup list \<Rightarrow> time_t \<Rightarrow> event list \<Rightarrow> error + pgBackup list \<times> event list"
where
  "do_merge e backups backup_id h =
     (if backup_id = INVALID_BACKUP_ID e then Inl BackupIdNotSpecified
      else if instance_name e = None then Inl InstanceNotSpecified
      else
        (case find_backups backup_id backups 0 None (INVALID_BACKUP_ID e) of
           Inl err \<Rightarrow> Inl err
         | Inr (None, full_backup) \<Rightarrow> Inl (TargetNotFound backup_id)
         | Inr (Some dest_backup_idx, None) \<Rightarrow> Inl (ParentFullNotFound backup_id)
         | Inr (Some dest_backup_idx, Some full_backup_idx) \<Rightarrow>
             (case merge_loop e full_backup_idx dest_backup_idx full_backup_idx (backups, h) of
                Inl err \<Rightarrow> Inl err
              | Inr (backups1, h1) \<Rightarrow>
                  (let full_backup = backups1 ! full_backup_idx;
                       full1 = full_backup\<lparr>status := pgBackupValidate e h1 full_backup\<rparr>;
                       h2 = h1 @ [PgBackupValidate (start_time full_backup) (status full_backup)]
                   in if status full1 = BACKUP_STATUS_CORRUPT
                      then Inl (MergingFailed backup_id)
                      else Inr (backups1[full_backup_idx := full1], h2)))))"


section \<open>Notions of the specification\<close>

text \<open>The parent chain among the older backups \<open>bs\<close> of a catalog in descending
  order of start time: the backup whose identifier is the parent wanted, then its
  own parent, and so on up to the first FULL backup.\<close>

fun ancestors :: "pgBackup list \<Rightarrow> time_t \<Rightarrow> pgBackup list" where
  "ancestors [] parent = []"
| "ancestors (b # bs) parent =
     (if start_time b = parent
      then b # (if backup_mode b = BACKUP_MODE_FULL then [] else ancestors bs (parent_backup b))
      else ancestors bs parent)"

text \<open>The parent chain from the backup at index \<open>d\<close> to its FULL ancestor.\<close>

definition parent_chain :: "pgBackup list \<Rightarrow> nat \<Rightarrow> pgBackup list" where
  "parent_chain bs d = bs ! d # ancestors (drop (Suc d) bs) (parent_backup (bs ! d))"

text \<open>The calls of \<^verbatim>\<open>merge_backups\<close> in a list of events, as pairs of the index of the
  destination and the index of the source.\<close>

fun merge_calls :: "event list \<Rightarrow> (nat \<times> nat) list" where
  "merge_calls [] = []"
| "merge_calls (CallMergeBackups t f # h) = (t, f) # merge_calls h"
| "merge_calls (ev # h) = merge_calls h"

text \<open>The 1-based position of the first occurrence of a path in a list of extra
  directories.\<close>

definition position :: "string \<Rightarrow> string list \<Rightarrow> int" where
  "position x xs = int (length (takeWhile (\<lambda>y. y \<noteq> x) xs)) + 1"

text \<open>The list of extra directories of the source, empty when the source has none.\<close>

definition extra_list :: "string list option \<Rightarrow> string list" where
  "extra_list from_extra' = (case from_extra' of None \<Rightarrow> [] | Some xs \<Rightarrow> xs)"

text \<open>The reconciliation of one position in the words of the specification: the
  container of a path that the source does not have is deleted with its contents;
  the container of a path that the source has at another position is renamed to
  that position, and a rename that fails is fatal.\<close>

definition reconcile_position ::
  "env \<Rightarrow> fpath \<Rightarrow> string list option \<Rightarrow> nat \<Rightarrow> string \<Rightarrow> event list \<Rightarrow> error + event list"
where
  "reconcile_position e template from_extra' i x h =
     (let container = ExtraDirPathByNum template (int i);
          target = ExtraDirPathByNum template (position x (extra_list from_extra'))
      in if x \<notin> set (extra_list from_extra') then Inr (remove_dir_with_files e container h)
         else if position x (extra_list from_extra') = int i then Inr h
         else if rename e h container target = -1 then Inl (CouldNotRename container target)
         else Inr (h @ [Rename container target]))"

text \<open>The positions \<open>i\<close>, \<open>i + 1\<close>, ... of the destination's list in ascending order,
  up to the first fatal error.\<close>

fun reconcile :: 
  "env \<Rightarrow> fpath \<Rightarrow> string list option \<Rightarrow> nat \<Rightarrow> string list \<Rightarrow> event list \<Rightarrow> error + event list"
where
  "reconcile e template from_extra' i [] h = Inr h"
| "reconcile e template from_extra' i (x # xs) h =
     (case reconcile_position e template from_extra' i x h of
        Inl err \<Rightarrow> Inl err
      | Inr h1 \<Rightarrow> reconcile e template from_extra' (Suc i) xs h1)"

text \<open>The rename of the container at (0-based) index \<open>i\<close> of the destination's list
  has as its target the number of a container at a later index of that list, one
  that the loop has not come to yet.\<close>

definition targets_unprocessed :: "string list \<Rightarrow> string list option \<Rightarrow> nat \<Rightarrow> bool" where
  "targets_unprocessed to_extra from_extra' i =
     (let from_num = get_extra_index (to_extra ! i) from_extra'
      in from_num \<noteq> -1 \<and> from_num \<noteq> int i + 1 \<and>
         int i + 1 < from_num \<and> from_num \<le> int (length to_extra))"



section \<open>Concrete inputs\<close>

text \<open>A regular file of 10 bytes that is neither a data file nor in an extra
  directory, and a directory entry.\<close>

definition file0 :: pgFile where
  "file0 =
     \<lparr>path = Rel ''a'', name = ''a'', mode = S_IFREG, file_size = 10, write_size = 10,
      n_blocks = 0, crc = 0, compress_alg = COMPRESS_OTHER ''none'', is_datafile = False,
      is_cfs = False, extra_dir_num = 0, lock = False\<rparr>"

definition dir0 :: pgFile where
  "dir0 = file0\<lparr>path := Rel ''base'', name := ''base'', mode := S_IFDIR, file_size := 0,
                write_size := 0\<rparr>"

text \<open>A list of extra directories is written as its paths separated by colons.\<close>

fun split_colon :: "string \<Rightarrow> string list" where
  "split_colon [] = [[]]"
| "split_colon (c # cs) =
     (if c = CHR '':'' then [] # split_colon cs
      else (case split_colon cs of [] \<Rightarrow> [[c]] | x # xs \<Rightarrow> (c # x) # xs))"

text \<open>An environment in which every collaborator succeeds and changes nothing: a
  validation leaves the status as it is, the file lists are empty, a directory
  lists as itself, and the sorts meet lists that are in order already.\<close>

definition env0 :: env where
  "env0 =
     \<lparr>INVALID_BACKUP_ID = 0, BYTES_INVALID = -1, USE_ASSERT_CHECKING = False,
      instance_name = Some ''node'', num_threads = 1, xlog_seg_size = 16777216,
      interrupted = (\<lambda>h. False),
      pgBackupValidate = (\<lambda>h b. status b),
      dir_read_file_list = (\<lambda>h p. []),
      dir_list_file = (\<lambda>h p. [dir0\<lparr>path := p\<rparr>]),
      qsort_PathDesc = (\<lambda>fs. fs),
      qsort_Size = (\<lambda>fs. fs),
      make_extra_directory_list = split_colon,
      backup_contains_extra = (\<lambda>d l. False),
      restore_data_file = (\<lambda>h p f t w v. None),
      backup_data_file = (\<lambda>h p f b. Inr f),
      copy_pgcontrol_file = (\<lambda>h a b f. Inr f),
      copy_file = (\<lambda>h a b f. Inr f),
      pgFileSize = (\<lambda>h p. 0),
      pgFileGetCRC = (\<lambda>h p. 0),
      unlink = (\<lambda>h p. 0),
      rename = (\<lambda>h a b. 0)\<rparr>"

text \<open>A FULL backup in status OK, taken without compression from the archive, and a
  DELTA backup of it.\<close>

definition full0 :: pgBackup where
  "full0 =
     \<lparr>start_time = 1, status = BACKUP_STATUS_OK, backup_mode = BACKUP_MODE_FULL,
      parent_backup = 0, start_lsn = 0, stop_lsn = 0, recovery_time = 0, recovery_xid = 0,
      stream = False, data_bytes = 0, wal_bytes = 0,
      backup_compress_alg = COMPRESS_OTHER ''none'', compress_level = 1,
      extra_dir_str = None, program_version = ''2.0.26''\<rparr>"

definition delta0 :: pgBackup where
  "delta0 = full0\<lparr>start_time := 3, backup_mode := BACKUP_MODE_DIFF_DELTA, parent_backup := 1\<rparr>"

text \<open>The arguments of a worker that merges \<open>delta0\<close> into \<open>full0\<close>.\<close>

definition arg0 :: merge_files_arg where
  "arg0 =
     \<lparr>to_files = [], from_extra = None, to_backup = full0, from_backup = delta0,
      to_root = BackupPath 1 (Some DATABASE_DIR), from_root = BackupPath 3 (Some DATABASE_DIR),
      to_extra_prefix = BackupPath 1 (Some EXTRA_DIR), from_extra_prefix = BackupPath 3 (Some EXTRA_DIR)\<rparr>"

text \<open>An entry of the source for a file that did not change, the entry of the same
  path in the old file list of the destination, and the worker's arguments with
  that list.\<close>

definition file_unchanged :: pgFile where
  "file_unchanged = file0\<lparr>write_size := -1, n_blocks := -1\<rparr>"

definition old_entry :: pgFile where
  "old_entry = file0\<lparr>compress_alg := ZLIB_COMPRESS, write_size := 100, crc := 7\<rparr>"

definition arg_old :: merge_files_arg where
  "arg_old = arg0\<lparr>to_files := [old_entry]\<rparr>"

text \<open>A destination compressed with zlib whose old file list has the file \<open>a\<close>
  with no compression tag of its own.\<close>

definition arg_zlib :: merge_files_arg where
  "arg_zlib =
     arg0\<lparr>to_files := [file0\<lparr>write_size := 100, crc := 7\<rparr>],
          to_backup := full0\<lparr>backup_compress_alg := ZLIB_COMPRESS\<rparr>\<rparr>"

text \<open>Two backups that list the same two extra directories in opposite orders, and
  a file of the source's first extra directory.\<close>

definition arg_extra :: merge_files_arg where
  "arg_extra =
     arg0\<lparr>from_extra := Some [''/mnt/a'', ''/mnt/b''],
          to_backup := full0\<lparr>extra_dir_str := Some ''/mnt/b:/mnt/a''\<rparr>,
          from_backup := delta0\<lparr>extra_dir_str := Some ''/mnt/a:/mnt/b''\<rparr>\<rparr>"

definition file_extra :: pgFile where
  "file_extra = file0\<lparr>path := Rel ''conf'', name := ''conf'', extra_dir_num := 1\<rparr>"




text \<open>A catalog in which two DELTA backups have the same FULL parent.\<close>

definition catalog_siblings :: "pgBackup list" where
  "catalog_siblings = [delta0, delta0\<lparr>start_time := 2\<rparr>, full0]"

text \<open>A catalog whose DELTA backup names a parent that the catalog does not have.\<close>

definition catalog_broken :: "pgBackup list" where
  "catalog_broken = [delta0\<lparr>parent_backup := 2\<rparr>, full0]"

text \<open>A catalog left by a merge that was interrupted while the source was being
  deleted, without and with an extra directory, and an environment in which the
  file list of the destination has a file of that extra directory.\<close>

definition catalog_resume :: "pgBackup list" where
  "catalog_resume = [delta0\<lparr>status := BACKUP_STATUS_DELETING\<rparr>, full0]"

definition catalog_resume_extra :: "pgBackup list" where
  "catalog_resume_extra =
     [delta0\<lparr>status := BACKUP_STATUS_DELETING, extra_dir_str := Some ''/mnt/a''\<rparr>,
      full0\<lparr>extra_dir_str := Some ''/mnt/a''\<rparr>]"

definition catalog_extra :: "pgBackup list" where
  "catalog_extra =
     [delta0\<lparr>extra_dir_str := Some ''/mnt/a''\<rparr>, full0\<lparr>extra_dir_str := Some ''/mnt/a''\<rparr>]"

text \<open>The catalog of the two siblings with the older one failed: the backup taken
  after a failed backup has the last valid backup as its parent.\<close>

definition catalog_failed_sibling :: "pgBackup list" where
  "catalog_failed_sibling =
     [delta0, delta0\<lparr>start_time := 2, status := BACKUP_STATUS_OTHER ''ERROR''\<rparr>, full0]"

definition env_extra_file :: env where
  "env_extra_file =
     env0\<lparr>dir_read_file_list :=
            (\<lambda>h p. if p = BackupPath 1 (Some DATABASE_FILE_LIST) then [file_extra] else [])\<rparr>"

text \<open>An environment in which the validation of the FULL backup that has taken the
  identifier 3 reports it corrupt.\<close>

definition env_corrupt :: env where
  "env_corrupt =
     env0\<lparr>pgBackupValidate :=
            (\<lambda>h b. if start_time b = 3 \<and> backup_mode b = BACKUP_MODE_FULL
                    then BACKUP_STATUS_CORRUPT else status b)\<rparr>"

section \<open>Properties of the worker's action on one file\<close>

lemma parray_bsearch_Some:
  "parray_bsearch xs k = Some t \<Longrightarrow> t \<in> set xs \<and> path t = path k"
  by (auto simp: parray_bsearch_def find_Some_iff)

lemma parray_bsearch_None:
  "(parray_bsearch xs k = None) = (\<forall>t\<in>set xs. path t \<noteq> path k)"
  by (auto simp: parray_bsearch_def find_None_iff)

text \<open>
  Claim C4. An entry of the source's file list that the worker has claimed and that
  is not a directory, with \<^verbatim>\<open>write_size == BYTES_INVALID\<close> and \<^verbatim>\<open>n_blocks == -1\<close>:
  the worker does no I/O for it (the events are the ones before); when the old file
  list of the destination has an entry of the same path, the compression tag, the
  write size and the checksum of the entry become those of such an old entry, and no
  other field changes; when it has none, the entry is left as it was.
\<close>

theorem unchanged_file_keeps_old_metadata:
  "write_size file = BYTES_INVALID e \<and> n_blocks file = -1 \<and> \<not> S_ISDIR (mode file) \<Longrightarrow>
     snd (merge_file e arg file h) = h \<and>
     ((\<exists>t\<in>set (to_files arg). path t = path file) \<longrightarrow>
        (\<exists>t\<in>set (to_files arg). path t = path file \<and>
           fst (merge_file e arg file h) =
             Inr (file\<lparr>compress_alg := compress_alg t, write_size := write_size t,
                        crc := crc t\<rparr>))) \<and>
     ((\<forall>t\<in>set (to_files arg). path t \<noteq> path file) \<longrightarrow>
        fst (merge_file e arg file h) = Inr file)"
proof -
  assume a: "write_size file = BYTES_INVALID e \<and> n_blocks file = -1 \<and> \<not> S_ISDIR (mode file)"
  show ?thesis
  proof (cases "parray_bsearch (to_files arg) file")
    case None
    have r: "merge_file e arg file h = (Inr file, h)"
      using a None by (simp add: merge_file_def)
    from None have "\<forall>t\<in>set (to_files arg). path t \<noteq> path file"
      by (simp add: parray_bsearch_None)
    with r show ?thesis by simp
  next
    case (Some t)
    have r: "merge_file e arg file h =
        (Inr (file\<lparr>compress_alg := compress_alg t, write_size := write_size t, crc := crc t\<rparr>), h)"
      using a Some by (simp add: merge_file_def)
    from Some have "t \<in> set (to_files arg) \<and> path t = path file"
      by (rule parray_bsearch_Some)
    with r show ?thesis by auto
  qed
qed

theorem unchanged_file_keeps_old_metadata_witness:
  "snd (merge_file env0 arg_old file_unchanged []) = [] \<and>
   fst (merge_file env0 arg_old file_unchanged []) =
     Inr (file_unchanged\<lparr>compress_alg := ZLIB_COMPRESS, write_size := 100, crc := 7\<rparr>) \<and>
   snd (merge_file env0 arg0 file_unchanged []) = [] \<and>
   fst (merge_file env0 arg0 file_unchanged []) = Inr file_unchanged"
  using unchanged_file_keeps_old_metadata [of file_unchanged env0 arg_old "[]"]
        unchanged_file_keeps_old_metadata [of file_unchanged env0 arg0 "[]"]
  by (simp add: file_unchanged_def old_entry_def arg_old_def arg0_def file0_def env0_def
        S_ISDIR_def)

text \<open>
  Claim C5, as the code has it. When the worker's action on an entry it has claimed
  completes, the compression tag of the entry is the compression algorithm of the
  destination backup for every action but the skip of an unchanged file: that one
  leaves the loop body before line 639, with the tag of the same-path entry of the
  destination's old file list when there is one and the entry's own tag otherwise.
  A directory entry keeps its tag.
\<close>

theorem compression_tag_after_action:
  "merge_file e arg file h = (Inr file', h') \<Longrightarrow>
     compress_alg file' =
       (if S_ISDIR (mode file) then compress_alg file
        else if write_size file = BYTES_INVALID e \<and> n_blocks file = -1
        then (case parray_bsearch (to_files arg) file of
                Some t \<Rightarrow> compress_alg t
              | None \<Rightarrow> compress_alg file)
        else backup_compress_alg (to_backup arg))"
  unfolding merge_file_def Let_def
  by (auto split: if_splits option.splits prod.splits sum.splits)

theorem compression_tag_after_action_witness:
  "\<exists>file' h'. merge_file env0 arg_zlib file0 [] = (Inr file', h') \<and>
      compress_alg file' = ZLIB_COMPRESS"
proof -
  have "\<exists>file' h'. merge_file env0 arg_zlib file0 [] = (Inr file', h')"
    by (simp add: merge_file_def merge_action_def arg_zlib_def arg0_def file0_def env0_def
        full0_def S_ISDIR_def parray_bsearch_def)
  then obtain file' h' where r: "merge_file env0 arg_zlib file0 [] = (Inr file', h')"
    by blast
  from compression_tag_after_action [OF r] r show ?thesis
    by (auto simp add: arg_zlib_def arg0_def file0_def env0_def full0_def S_ISDIR_def)
qed

text \<open>
  Claim C5 as stated fails for the skip: the destination is compressed with zlib,
  the unchanged file \<open>a\<close> has an old entry tagged with no compression, and after
  the skip the entry carries that old tag, not zlib.
\<close>

theorem skip_keeps_old_compression_tag:
  "fst (merge_file env0 arg_zlib file_unchanged []) =
     Inr (file_unchanged\<lparr>write_size := 100, crc := 7\<rparr>) \<and>
   compress_alg (file_unchanged\<lparr>write_size := 100, crc := 7\<rparr>) = COMPRESS_OTHER ''none'' \<and>
   backup_compress_alg (to_backup arg_zlib) = ZLIB_COMPRESS"
  by (simp add: merge_file_def arg_zlib_def arg0_def file_unchanged_def file0_def env0_def
        full0_def S_ISDIR_def parray_bsearch_def)

section \<open>Properties of the lookup of extra directories\<close>

lemma position_ge: "1 \<le> position x xs"
  by (simp add: position_def)

lemma get_extra_index_from_eq:
  "get_extra_index_from key xs i = (if key \<in> set xs then i + position key xs else -1)"
  by (induction xs arbitrary: i) (auto simp: position_def)

lemma get_extra_index_eq:
  "get_extra_index key l =
     (if key \<in> set (extra_list l) then position key (extra_list l) else -1)"
  by (cases l) (simp_all add: get_extra_index_def extra_list_def get_extra_index_from_eq)

lemma position_nth_distinct:
  "distinct xs \<Longrightarrow> k < length xs \<Longrightarrow> position (xs ! k) xs = int k + 1"
proof (induction xs arbitrary: k)
  case Nil
  then show ?case by simp
next
  case (Cons x xs)
  then show ?case
    by (cases k) (auto simp: position_def)
qed

text \<open>
  Claim C6, as the code has it. For an entry of an extra directory that is neither a
  data file to merge by blocks nor the control file: the source root is the
  container with the entry's stored number under the source's prefix; the path at
  that index of the source's list of extra directories is looked up in the same
  list of the source (the worker is given no list of the destination); the
  destination root is the container with the number so found under the
  destination's prefix, and the file is copied between the two roots. The number
  found is the position of the first occurrence of the path in the source's list,
  which is the stored number when that list has no path twice.
\<close>

theorem extra_file_roots:
  "\<not> (is_datafile file \<and> \<not> is_cfs file) \<and> name file \<noteq> ''pg_control'' \<and>
   extra_dir_num file \<noteq> 0 \<and> from_extra arg = Some xs \<and>
   parray_get xs (extra_dir_num file - 1) = Some p \<and>
   copy_file e h (ExtraDirPathByNum (from_extra_prefix arg) (extra_dir_num file))
     (ExtraDirPathByNum (to_extra_prefix arg) (get_extra_index p (Some xs))) file = Inr file1 \<Longrightarrow>
   merge_action e arg to_file prev_file_path file h =
     (Inr file1,
      h @ [CopyFile (ExtraDirPathByNum (from_extra_prefix arg) (extra_dir_num file))
             (ExtraDirPathByNum (to_extra_prefix arg) (get_extra_index p (Some xs)))
             (path file)]) \<and>
   p \<in> set xs \<and> get_extra_index p (Some xs) = position p xs \<and>
   (distinct xs \<longrightarrow> get_extra_index p (Some xs) = extra_dir_num file)"
proof -
  assume a: "\<not> (is_datafile file \<and> \<not> is_cfs file) \<and> name file \<noteq> ''pg_control'' \<and>
   extra_dir_num file \<noteq> 0 \<and> from_extra arg = Some xs \<and>
   parray_get xs (extra_dir_num file - 1) = Some p \<and>
   copy_file e h (ExtraDirPathByNum (from_extra_prefix arg) (extra_dir_num file))
     (ExtraDirPathByNum (to_extra_prefix arg) (get_extra_index p (Some xs))) file = Inr file1"
  have act: "merge_action e arg to_file prev_file_path file h =
     (Inr file1,
      h @ [CopyFile (ExtraDirPathByNum (from_extra_prefix arg) (extra_dir_num file))
             (ExtraDirPathByNum (to_extra_prefix arg) (get_extra_index p (Some xs)))
             (path file)])"
    using a by (auto simp add: merge_action_def merge_extra_file_def)
  from a have k: "0 \<le> extra_dir_num file - 1" "nat (extra_dir_num file - 1) < length xs"
      "p = xs ! nat (extra_dir_num file - 1)"
    by (auto simp: parray_get_def split: if_splits)
  then have mem: "p \<in> set xs" by simp
  then have pos: "get_extra_index p (Some xs) = position p xs"
    by (simp add: get_extra_index_eq extra_list_def)
  have "distinct xs \<longrightarrow> position p xs = extra_dir_num file"
    using k position_nth_distinct [of xs "nat (extra_dir_num file - 1)"] by auto
  with act mem pos show ?thesis by simp
qed

theorem extra_file_roots_witness:
  "merge_action env0 arg_extra None (Rel ''conf'') file_extra [] =
     (Inr file_extra,
      [CopyFile (ExtraDirPathByNum (BackupPath 3 (Some EXTRA_DIR)) 1)
         (ExtraDirPathByNum (BackupPath 1 (Some EXTRA_DIR)) 1) (Rel ''conf'')]) \<and>
   get_extra_index ''/mnt/a'' (Some [''/mnt/a'', ''/mnt/b'']) = 1"
  using extra_file_roots [of file_extra arg_extra "[''/mnt/a'', ''/mnt/b'']" "''/mnt/a''"
      env0 "[]" file_extra None "Rel ''conf''"]
  by (simp add: arg_extra_def arg0_def file_extra_def file0_def env0_def parray_get_def
        get_extra_index_def)

text \<open>
  Claim C6 as stated fails: the destination lists its extra directories as
  \<open>/mnt/b:/mnt/a\<close> and the source as \<open>/mnt/a:/mnt/b\<close>. For a file of the source's
  directory 1 (\<open>/mnt/a\<close>) the worker copies into container 1 of the destination,
  while the position of \<open>/mnt/a\<close> in the destination's list is 2.
\<close>

theorem extra_file_not_looked_up_in_destination:
  "snd (merge_file env0 arg_extra file_extra []) =
     [CopyFile (ExtraDirPathByNum (BackupPath 3 (Some EXTRA_DIR)) 1)
               (ExtraDirPathByNum (BackupPath 1 (Some EXTRA_DIR)) 1)
               (Join (ExtraDirPathByNum (BackupPath 3 (Some EXTRA_DIR)) 1) (Rel ''conf''))] \<and>
   parray_get [''/mnt/a'', ''/mnt/b''] (extra_dir_num file_extra - 1) = Some ''/mnt/a'' \<and>
   get_extra_index ''/mnt/a''
     (map_option (make_extra_directory_list env0) (extra_dir_str (to_backup arg_extra))) = 2"
  by (simp add: merge_file_def merge_action_def merge_extra_file_def arg_extra_def arg0_def
        file_extra_def file0_def env0_def full0_def delta0_def S_ISDIR_def parray_bsearch_def
        parray_get_def get_extra_index_def)

section \<open>Properties of the metadata of the merged backup\<close>

lemma sum_data_bytes_from:
  "sum_data_bytes files b =
     b + sum_list (map write_size (filter (\<lambda>f. S_ISREG (mode f)) files))
       + 4096 * of_nat (length (filter (\<lambda>f. S_ISDIR (mode f)) files))"
  by (induction files arbitrary: b) (auto simp: S_ISDIR_def S_ISREG_def algebra_simps)

lemma update_backup_metadata_Inr:
  "update_backup_metadata e to_b from_b files = Inr (to1, from1) \<Longrightarrow>
     data_bytes to1 =
       sum_list (map write_size (filter (\<lambda>f. S_ISREG (mode f)) files))
         + 4096 * of_nat (length (filter (\<lambda>f. S_ISDIR (mode f)) files)) \<and>
     stream to1 = (stream to_b \<and> stream from_b) \<and>
     start_lsn to1 = start_lsn from_b \<and> stop_lsn to1 = stop_lsn from_b \<and>
     (if stream to1 then wal_bytes to1 = BYTES_INVALID e
      else wal_bytes to1 =
          ucast (xlog_seg_size e) *
            (stop_lsn to1 div ucast (xlog_seg_size e)
               - start_lsn to1 div ucast (xlog_seg_size e) + 1))"
  by (auto simp: update_backup_metadata_def Let_def sum_data_bytes_from split: if_splits)

text \<open>
  Claim C8. When the part of a pair merge that ends with the update of the
  destination's metadata succeeds, leaving the source's file list as \<open>files1\<close>: the
  data bytes of the destination are the sum of the write sizes of the regular files
  of \<open>files1\<close> plus 4096 for each of its directories (in 64-bit arithmetic); the
  destination is a stream backup only if both backups were, and has the source's
  start and stop positions; its WAL bytes are \<^verbatim>\<open>BYTES_INVALID\<close> when it is a stream
  backup and \<^verbatim>\<open>xlog_seg_size * (stop_lsn / xlog_seg_size - start_lsn / xlog_seg_size + 1)\<close>
  otherwise.
\<close>

theorem merged_backup_sizes:
  "merge_data e to_b from_b to_files' files h
      = Inr (to1, from1, files1, to_extra, from_extra', h1) \<Longrightarrow>
     data_bytes to1 =
       sum_list (map write_size (filter (\<lambda>f. S_ISREG (mode f)) files1))
         + 4096 * of_nat (length (filter (\<lambda>f. S_ISDIR (mode f)) files1)) \<and>
     stream to1 = (stream to_b \<and> stream from_b) \<and>
     start_lsn to1 = start_lsn from_b \<and> stop_lsn to1 = stop_lsn from_b \<and>
     (if stream to1 then wal_bytes to1 = BYTES_INVALID e
      else wal_bytes to1 =
          ucast (xlog_seg_size e) *
            (stop_lsn to1 div ucast (xlog_seg_size e)
               - start_lsn to1 div ucast (xlog_seg_size e) + 1))"
  unfolding merge_data_def Let_def
  by (auto split: sum.splits prod.splits option.splits dest!: update_backup_metadata_Inr)

lemmas eval_merge_data =
  merge_data_def merge_all_files_def update_backup_metadata_def merge_file_def
  merge_action_def S_ISDIR_def S_ISREG_def Let_def

theorem merged_backup_sizes_witness:
  "\<exists>to1 from1 files1 to_extra from_extra' h1.
     merge_data env0 full0 (delta0\<lparr>start_lsn := 50331648, stop_lsn := 67108904\<rparr>) []
         [file0, dir0] []
       = Inr (to1, from1, files1, to_extra, from_extra', h1) \<and>
     data_bytes to1 = 4106 \<and> \<not> stream to1 \<and> wal_bytes to1 = 33554432"
proof -
  have "\<exists>x. merge_data env0 full0 (delta0\<lparr>start_lsn := 50331648, stop_lsn := 67108904\<rparr>) []
         [file0, dir0] [] = Inr x"
    by (simp add: eval_merge_data env0_def full0_def delta0_def file0_def dir0_def)
  then obtain to1 from1 files1 to_extra from_extra' h1 where
    r: "merge_data env0 full0 (delta0\<lparr>start_lsn := 50331648, stop_lsn := 67108904\<rparr>) []
         [file0, dir0] [] = Inr (to1, from1, files1, to_extra, from_extra', h1)"
    by (metis prod_cases6)
  from merged_backup_sizes [OF r] r show ?thesis
    by (auto simp add: eval_merge_data env0_def full0_def delta0_def file0_def dir0_def)
qed

section \<open>Properties of the worker's loop and of the join\<close>












section \<open>Properties of the renumbering of extra directories\<close>

lemma reorder_extra_dirs_from_eq:
  "reorder_extra_dirs_from e t xs (int i) fe h = reconcile e t fe (Suc i) xs h"
proof (induction xs arbitrary: i h)
  case Nil
  then show ?case by simp
next
  case (Cons x xs)
  have ih: "\<And>h'. reorder_extra_dirs_from e t xs (1 + int i) fe h' = reconcile e t fe (Suc (Suc i)) xs h'"
    using Cons.IH [of "Suc i"] by (simp add: add.commute)
  have pos: "position x (extra_list fe) \<noteq> -1"
    using position_ge [of x "extra_list fe"] by linarith
  show ?case
    using pos
    by (simp add: ih reconcile_position_def get_extra_index_eq Let_def add.commute)
qed

text \<open>
  Claim C3, as the code has it. \<^verbatim>\<open>reorder_extra_dirs\<close> goes through the positions
  1..n of the destination's list in ascending order; at each it deletes the numbered
  container with its contents when the path is absent from the source's list, and
  renames the container to the 1-based position of the (first occurrence of the)
  path in the source's list when that position differs, a rename that fails being
  fatal. The rename for (0-based) index \<open>i\<close> has as its target the container of a
  position that the loop has not come to yet exactly when the path is in the source's
  list at a position greater than \<open>i + 1\<close> and at most n: such renames exist, and the
  code does nothing to avoid them.
\<close>

theorem reorder_extra_dirs_reconciles:
  "reorder_extra_dirs e to_b to_extra fe h =
     reconcile e (BackupPath (start_time to_b) (Some EXTRA_DIR)) fe 1 to_extra h \<and>
   (\<forall>i<length to_extra.
      targets_unprocessed to_extra fe i =
        (to_extra ! i \<in> set (extra_list fe) \<and>
         int i + 1 < position (to_extra ! i) (extra_list fe) \<and>
         position (to_extra ! i) (extra_list fe) \<le> int (length to_extra)))"
proof -
  have 1: "reorder_extra_dirs e to_b to_extra fe h =
     reconcile e (BackupPath (start_time to_b) (Some EXTRA_DIR)) fe 1 to_extra h"
    using reorder_extra_dirs_from_eq [of e _ to_extra 0 fe h]
    by (simp add: reorder_extra_dirs_def)
  have 2: "targets_unprocessed to_extra fe i =
        (to_extra ! i \<in> set (extra_list fe) \<and>
         int i + 1 < position (to_extra ! i) (extra_list fe) \<and>
         position (to_extra ! i) (extra_list fe) \<le> int (length to_extra))" for i
    using position_ge [of "to_extra ! i" "extra_list fe"]
    by (auto simp: targets_unprocessed_def get_extra_index_eq Let_def)
  from 1 2 show ?thesis by simp
qed

theorem reorder_extra_dirs_reconciles_witness:
  "reorder_extra_dirs env0 full0 [''/mnt/a'', ''/mnt/b'', ''/mnt/c'']
       (Some [''/mnt/b'', ''/mnt/c'']) [] =
     Inr [PgFileDelete (ExtraDirPathByNum (BackupPath 1 (Some EXTRA_DIR)) 1),
          Rename (ExtraDirPathByNum (BackupPath 1 (Some EXTRA_DIR)) 2)
                 (ExtraDirPathByNum (BackupPath 1 (Some EXTRA_DIR)) 1),
          Rename (ExtraDirPathByNum (BackupPath 1 (Some EXTRA_DIR)) 3)
                 (ExtraDirPathByNum (BackupPath 1 (Some EXTRA_DIR)) 2)] \<and>
   \<not> targets_unprocessed [''/mnt/a'', ''/mnt/b'', ''/mnt/c''] (Some [''/mnt/b'', ''/mnt/c'']) 1 \<and>
   \<not> targets_unprocessed [''/mnt/a'', ''/mnt/b'', ''/mnt/c''] (Some [''/mnt/b'', ''/mnt/c'']) 2"
  using reorder_extra_dirs_reconciles [of env0 full0 "[''/mnt/a'', ''/mnt/b'', ''/mnt/c'']" "Some [''/mnt/b'', ''/mnt/c'']" "[]"]
  by (simp add: reconcile_position_def extra_list_def position_def remove_dir_with_files_def
        env0_def full0_def dir0_def file0_def Let_def)

text \<open>
  Claim C3 as stated fails: the destination lists \<open>/mnt/a\<close>, \<open>/mnt/b\<close> and the source
  lists \<open>/mnt/b\<close>, \<open>/mnt/a\<close>. The first rename, of container 1, has container 2 as
  its target, which is the original container of \<open>/mnt/b\<close>: the loop comes to it
  only afterwards.
\<close>

theorem rename_targets_unprocessed_container:
  "reorder_extra_dirs env0 full0 [''/mnt/a'', ''/mnt/b''] (Some [''/mnt/b'', ''/mnt/a'']) [] =
     Inr [Rename (ExtraDirPathByNum (BackupPath 1 (Some EXTRA_DIR)) 1)
                 (ExtraDirPathByNum (BackupPath 1 (Some EXTRA_DIR)) 2),
          Rename (ExtraDirPathByNum (BackupPath 1 (Some EXTRA_DIR)) 2)
                 (ExtraDirPathByNum (BackupPath 1 (Some EXTRA_DIR)) 1)] \<and>
   targets_unprocessed [''/mnt/a'', ''/mnt/b''] (Some [''/mnt/b'', ''/mnt/a'']) 0"
  by (simp add: reorder_extra_dirs_def get_extra_index_def targets_unprocessed_def
        env0_def full0_def Let_def)


section \<open>Properties of do_merge\<close>

lemma find_backups_no_match:
  "\<forall>b\<in>set bs. start_time b \<noteq> backup_id \<Longrightarrow>
     find_backups backup_id bs i None prev = Inl (TargetNotFound backup_id) \<or>
     find_backups backup_id bs i None prev = Inr (None, None)"
  by (induction bs arbitrary: i) auto

lemma find_backups_newer:
  "\<forall>b\<in>set pre. backup_id < start_time b \<Longrightarrow>
     find_backups backup_id (pre @ rest) i dest prev =
       find_backups backup_id rest (i + length pre) dest prev"
  by (induction pre arbitrary: i) auto

lemma find_backups_no_full:
  "\<forall>b\<in>set rest. start_time b < backup_id \<Longrightarrow>
   \<forall>a\<in>set (ancestors rest prev).
      (status a = BACKUP_STATUS_OK \<or> status a = BACKUP_STATUS_MERGING) \<and>
      backup_mode a \<noteq> BACKUP_MODE_FULL \<Longrightarrow>
   find_backups backup_id rest i (Some d) prev = Inr (Some d, None)"
proof (induction rest arbitrary: i prev)
  case Nil
  then show ?case by simp
next
  case (Cons b rest)
  from Cons.prems have older: "\<forall>b\<in>set rest. start_time b < backup_id"
    and this_older: "start_time b < backup_id"
    by auto
  show ?case
  proof (cases "start_time b = prev")
    case True
    with Cons.prems have ok: "status b = BACKUP_STATUS_OK \<or> status b = BACKUP_STATUS_MERGING"
      and nf: "backup_mode b \<noteq> BACKUP_MODE_FULL"
      and anc: "\<forall>a\<in>set (ancestors rest (parent_backup b)).
        (status a = BACKUP_STATUS_OK \<or> status a = BACKUP_STATUS_MERGING) \<and>
        backup_mode a \<noteq> BACKUP_MODE_FULL"
      by auto
    from Cons.IH [OF older anc] this_older True ok nf show ?thesis by auto
  next
    case False
    with Cons.prems have anc: "\<forall>a\<in>set (ancestors rest prev).
        (status a = BACKUP_STATUS_OK \<or> status a = BACKUP_STATUS_MERGING) \<and>
        backup_mode a \<noteq> BACKUP_MODE_FULL"
      by auto
    from Cons.IH [OF older anc] this_older False show ?thesis by auto
  qed
qed

lemma find_backups_broken_chain:
  assumes sorted: "sorted_wrt (\<lambda>a b. start_time b < start_time a) backups"
    and d: "d < length backups" "start_time (backups ! d) = backup_id"
    and st: "status (backups ! d) = BACKUP_STATUS_OK \<or>
             status (backups ! d) = BACKUP_STATUS_MERGING \<or>
             status (backups ! d) = BACKUP_STATUS_DELETING"
    and nf: "backup_mode (backups ! d) \<noteq> BACKUP_MODE_FULL"
    and anc: "\<forall>a\<in>set (ancestors (drop (Suc d) backups) (parent_backup (backups ! d))).
        (status a = BACKUP_STATUS_OK \<or> status a = BACKUP_STATUS_MERGING) \<and>
        backup_mode a \<noteq> BACKUP_MODE_FULL"
  shows "find_backups backup_id backups 0 None prev = Inr (Some d, None)"
proof -
  have split: "backups = take d backups @ backups ! d # drop (Suc d) backups"
    using d by (simp add: id_take_nth_drop)
  with sorted have s: "sorted_wrt (\<lambda>a b. start_time b < start_time a)
      (take d backups @ backups ! d # drop (Suc d) backups)"
    by simp
  from s have newer: "\<forall>b\<in>set (take d backups). backup_id < start_time b"
    using d by (auto simp: sorted_wrt_append)
  from s have older: "\<forall>b\<in>set (drop (Suc d) backups). start_time b < backup_id"
    using d by (auto simp: sorted_wrt_append)
  have "find_backups backup_id backups 0 None prev =
      find_backups backup_id (take d backups @ backups ! d # drop (Suc d) backups) 0 None prev"
    using split by simp
  also have "\<dots> = find_backups backup_id (backups ! d # drop (Suc d) backups) d None prev"
    using find_backups_newer [OF newer] d by simp
  also have "\<dots> = find_backups backup_id (drop (Suc d) backups) (Suc d) (Some d)
      (parent_backup (backups ! d))"
    using d st nf by auto
  also have "\<dots> = Inr (Some d, None)"
    by (rule find_backups_no_full [OF older anc])
  finally show ?thesis .
qed

text \<open>The calls of \<^verbatim>\<open>merge_backups\<close>: no function below \<^verbatim>\<open>merge_backups\<close> adds a
  call to the events, \<^verbatim>\<open>merge_backups\<close> adds its own, and the loop of lines 137-142
  adds one call per index from \<open>i - 1\<close> down to \<open>d\<close>, each with the FULL backup as the
  destination. So a \<^verbatim>\<open>do_merge\<close> that succeeds has called \<^verbatim>\<open>merge_backups\<close> with the
  backups at the indices \<open>f - 1\<close>, ..., \<open>d\<close>, whether they are in the parent chain or
  not. The indices that the scan returns satisfy \<open>d < f\<close>, the backup at \<open>d\<close> has the
  identifier asked for and the backup at \<open>f\<close> is FULL.\<close>

lemma merge_calls_append: "merge_calls (h @ h') = merge_calls h @ merge_calls h'"
  by (induction h rule: merge_calls.induct) auto

lemma foldl_delete_calls:
  "merge_calls (foldl (\<lambda>h f. h @ [PgFileDelete (path f)]) h files) = merge_calls h"
  by (induction files arbitrary: h) (auto simp: merge_calls_append)

lemma remove_dir_with_files_calls:
  "merge_calls (remove_dir_with_files e p h) = merge_calls h"
  by (simp add: remove_dir_with_files_def Let_def foldl_delete_calls)

lemma reorder_extra_dirs_from_calls:
  "reorder_extra_dirs_from e t xs i fe h = Inr h' \<Longrightarrow> merge_calls h' = merge_calls h"
proof (induction xs arbitrary: i h)
  case Nil
  then show ?case by simp
next
  case (Cons x xs)
  then show ?case
    by (auto simp: Let_def merge_calls_append remove_dir_with_files_calls split: if_splits)
qed

lemma merge_data_file_calls:
  "merge_data_file e arg tf p f h = (r, h') \<Longrightarrow> merge_calls h' = merge_calls h"
  unfolding merge_data_file_def Let_def
  by (auto simp: merge_calls_append split: if_splits option.splits sum.splits)

lemma merge_extra_file_calls:
  "merge_extra_file e arg f h = (r, h') \<Longrightarrow> merge_calls h' = merge_calls h"
  unfolding merge_extra_file_def Let_def
  by (auto simp: merge_calls_append split: if_splits option.splits sum.splits)

lemma merge_action_calls:
  "merge_action e arg tf p f h = (r, h') \<Longrightarrow> merge_calls h' = merge_calls h"
  unfolding merge_action_def
  by (auto simp: merge_calls_append split: if_splits sum.splits
        dest: merge_data_file_calls merge_extra_file_calls)

lemma merge_file_calls:
  "merge_file e arg f h = (r, h') \<Longrightarrow> merge_calls h' = merge_calls h"
  unfolding merge_file_def Let_def
  by (auto split: if_splits option.splits sum.splits prod.splits dest: merge_action_calls)

lemma merge_files_calls:
  "merge_files e arg files h = (ret, files', h') \<Longrightarrow> merge_calls h' = merge_calls h"
proof (induction files arbitrary: h ret files' h')
  case Nil
  then show ?case by simp
next
  case (Cons x rest)
  then show ?case
    by (auto simp: Let_def merge_calls_append split: if_splits prod.splits sum.splits
          dest: merge_file_calls)
qed

lemma run_threads_calls:
  "run_threads e arg n files h = (rets, files', h') \<Longrightarrow> merge_calls h' = merge_calls h"
proof (induction n arbitrary: files h rets files' h')
  case 0
  then show ?case by simp
next
  case (Suc n)
  then show ?case
    by (auto split: prod.splits sum.splits dest: merge_files_calls)
qed

lemma setup_threads_calls:
  "setup_threads p files h = (files', h') \<Longrightarrow> merge_calls h' = merge_calls h"
proof (induction files arbitrary: h files' h')
  case Nil
  then show ?case by simp
next
  case (Cons x rest)
  then show ?case
    by (auto simp: Let_def merge_calls_append split: if_splits prod.splits)
qed

lemma merge_all_files_calls:
  "merge_all_files e arg files h = Inr (files', h') \<Longrightarrow> merge_calls h' = merge_calls h"
  unfolding merge_all_files_def
  by (auto split: prod.splits sum.splits if_splits dest: run_threads_calls)

lemma validate_backups_calls:
  "validate_backups e t f h = Inr (t', f', h') \<Longrightarrow> merge_calls h' = merge_calls h"
  unfolding validate_backups_def Let_def
  by (auto simp: merge_calls_append split: if_splits)

lemma delete_stale_files_calls:
  "delete_stale_files e p files te fe to_files' h = Inr h' \<Longrightarrow> merge_calls h' = merge_calls h"
proof (induction to_files' arbitrary: h)
  case Nil
  then show ?case by simp
next
  case (Cons x rest)
  then show ?case
    by (auto simp: merge_calls_append split: if_splits option.splits sum.splits bool.splits)
qed

lemma delete_source_backup_calls:
  "delete_source_backup e t f tfs files te fe h = Inr (t', f', h') \<Longrightarrow>
     merge_calls h' = merge_calls h"
  unfolding delete_source_backup_def Let_def
  by (auto simp: merge_calls_append split: if_splits sum.splits dest!: delete_stale_files_calls)

lemma merge_data_calls:
  "merge_data e t f tfs files h = Inr (t', f', files', te, fe, h') \<Longrightarrow>
     merge_calls h' = merge_calls h"
  unfolding merge_data_def Let_def reorder_extra_dirs_def
  by (auto simp: merge_calls_append split: if_splits sum.splits option.splits prod.splits
        dest!: reorder_extra_dirs_from_calls setup_threads_calls merge_all_files_calls)

lemma merge_backups_calls:
  "merge_backups e t f st = Inr st' \<Longrightarrow> merge_calls (snd st') = merge_calls (snd st) @ [(t, f)]"
  unfolding merge_backups_def Let_def
  by (auto simp: merge_calls_append split: if_splits sum.splits prod.splits
        dest!: validate_backups_calls merge_data_calls delete_source_backup_calls)

lemma merge_loop_calls:
  "merge_loop e f d i st = Inr st' \<Longrightarrow>
     merge_calls (snd st') = merge_calls (snd st) @ map (Pair f) (rev [d..<i])"
proof (induction e f d i st rule: merge_loop.induct)
  case (1 e f d i st)
  show ?case
  proof (cases "d < i")
    case True
    then obtain j where j: "i = Suc j" "d \<le> j" by (cases i) auto
    from True "1.prems" obtain st1 where
      m: "merge_backups e f (i - 1) st = Inr st1" and
      l: "merge_loop e f d (i - 1) st1 = Inr st'"
      by (subst (asm) merge_loop.simps) (auto split: sum.splits)
    from "1.IH" [OF True m l] merge_backups_calls [OF m] j show ?thesis
      by simp
  next
    case False
    with "1.prems" show ?thesis
      by (subst (asm) merge_loop.simps) simp
  qed
qed

lemma do_merge_calls:
  "do_merge e backups backup_id h = Inr (backups', h') \<Longrightarrow>
     \<exists>d f. find_backups backup_id backups 0 None (INVALID_BACKUP_ID e) = Inr (Some d, Some f) \<and>
        merge_calls h' = merge_calls h @ map (Pair f) (rev [d..<f])"
  unfolding do_merge_def Let_def
  by (auto simp: merge_calls_append split: if_splits sum.splits option.splits prod.splits
        dest!: merge_loop_calls)

lemma find_backups_indices:
  "find_backups backup_id bs i dest prev = Inr (Some d, Some f) \<Longrightarrow>
   (\<forall>d0. dest = Some d0 \<longrightarrow> d0 < i) \<Longrightarrow>
     d < f \<and> i \<le> f \<and> f < i + length bs \<and> backup_mode (bs ! (f - i)) = BACKUP_MODE_FULL \<and>
     (dest = None \<longrightarrow> i \<le> d \<and> start_time (bs ! (d - i)) = backup_id) \<and>
     (\<forall>d0. dest = Some d0 \<longrightarrow> d = d0)"
proof (induction bs arbitrary: i dest prev)
  case Nil
  then show ?case by simp
next
  case (Cons b bs)
  have step: "d < f \<and> i \<le> f \<and> f < i + length (b # bs) \<and>
        backup_mode ((b # bs) ! (f - i)) = BACKUP_MODE_FULL \<and>
        (dest' = None \<longrightarrow> Suc i \<le> d \<and> start_time ((b # bs) ! (d - i)) = backup_id) \<and>
        (\<forall>d0. dest' = Some d0 \<longrightarrow> d = d0)"
    if r: "find_backups backup_id bs (Suc i) dest' prev' = Inr (Some d, Some f)"
      and p: "\<forall>d0. dest' = Some d0 \<longrightarrow> d0 < Suc i" for dest' prev'
  proof -
    from Cons.IH [OF r p] have ih: "d < f" "Suc i \<le> f" "f < Suc i + length bs"
      "backup_mode (bs ! (f - Suc i)) = BACKUP_MODE_FULL"
      "dest' = None \<longrightarrow> Suc i \<le> d \<and> start_time (bs ! (d - Suc i)) = backup_id"
      "\<forall>d0. dest' = Some d0 \<longrightarrow> d = d0"
      by simp_all
    from ih(2) have "(b # bs) ! (f - i) = bs ! (f - Suc i)"
      by (simp add: nth_Cons')
    moreover have "dest' = None \<longrightarrow> (b # bs) ! (d - i) = bs ! (d - Suc i)"
      using ih(5) by (auto simp: nth_Cons')
    ultimately show ?thesis using ih by auto
  qed
  show ?case
  proof (cases "backup_id < start_time b")
    case True
    with Cons.prems have r: "find_backups backup_id bs (Suc i) dest prev = Inr (Some d, Some f)"
      by simp
    from Cons.prems(2) have p: "\<forall>d0. dest = Some d0 \<longrightarrow> d0 < Suc i"
      by auto
    from step [OF r p] show ?thesis by auto
  next
    case newer: False
    show ?thesis
    proof (cases "start_time b = backup_id \<and> dest = None")
      case True
      with newer Cons.prems
      have "find_backups backup_id bs (Suc i) (Some i) (parent_backup b) = Inr (Some d, Some f)"
        by (simp split: if_splits)
      from step [OF this] True show ?thesis by auto
    next
      case False
      with newer Cons.prems obtain d0 where d0: "dest = Some d0" "d0 < i"
        by (cases dest) (auto split: if_splits)
      show ?thesis
      proof (cases "start_time b = prev \<and> backup_mode b = BACKUP_MODE_FULL")
        case True
        with newer False d0 Cons.prems have "d = d0" "f = i"
          by (auto split: if_splits)
        with True d0 show ?thesis by simp
      next
        case nf: False
        with newer False d0 Cons.prems obtain prev' where
          r: "find_backups backup_id bs (Suc i) dest prev' = Inr (Some d, Some f)"
          by (auto split: if_splits)
        from d0 have p: "\<forall>d0. dest = Some d0 \<longrightarrow> d0 < Suc i"
          by auto
        from step [OF r p] d0 show ?thesis by auto
      qed
    qed
  qed
qed

lemmas eval_do_merge =
  do_merge_def merge_loop.simps merge_backups_def validate_backups_def merge_data_def
  delete_source_backup_def merge_all_files_def update_backup_metadata_def
  Let_def

text \<open>
  Claim C2. With a backup identifier and an instance given: \<^verbatim>\<open>do_merge\<close> fails with
  "Target backup ... was not found" when no backup of the catalog has the identifier.
  On a catalog in descending order of start time in which the backup with the
  identifier is admitted as the destination (status OK, MERGING or DELETING, not
  FULL) and every backup of its parent chain passes the check of its status, it
  fails with "Parent full backup ... was not found" when the chain has no FULL
  backup, be it that a parent is missing from the catalog or that the chain ends
  without one. When the destination and its FULL parent are found, every pair merge
  succeeds, the FULL backup is validated once more: when that validation reports it
  CORRUPT, \<^verbatim>\<open>do_merge\<close> fails with "Merging of backup ... failed", and otherwise it
  succeeds with the validation as its last event.
\<close>

theorem do_merge_not_found_and_final_validation:
  "backup_id \<noteq> INVALID_BACKUP_ID e \<and> instance_name e \<noteq> None \<Longrightarrow>
     ((\<forall>b\<in>set backups. start_time b \<noteq> backup_id) \<longrightarrow>
        do_merge e backups backup_id h = Inl (TargetNotFound backup_id)) \<and>
     (sorted_wrt (\<lambda>a b. start_time b < start_time a) backups \<and>
      d < length backups \<and> start_time (backups ! d) = backup_id \<and>
      (status (backups ! d) = BACKUP_STATUS_OK \<or> status (backups ! d) = BACKUP_STATUS_MERGING \<or>
       status (backups ! d) = BACKUP_STATUS_DELETING) \<and>
      backup_mode (backups ! d) \<noteq> BACKUP_MODE_FULL \<and>
      (\<forall>a\<in>set (ancestors (drop (Suc d) backups) (parent_backup (backups ! d))).
         (status a = BACKUP_STATUS_OK \<or> status a = BACKUP_STATUS_MERGING) \<and>
         backup_mode a \<noteq> BACKUP_MODE_FULL) \<longrightarrow>
        do_merge e backups backup_id h = Inl (ParentFullNotFound backup_id)) \<and>
     (find_backups backup_id backups 0 None (INVALID_BACKUP_ID e) = Inr (Some d', Some f) \<and>
      merge_loop e f d' f (backups, h) = Inr (backups1, h1) \<and>
      pgBackupValidate e h1 (backups1 ! f) = BACKUP_STATUS_CORRUPT \<longrightarrow>
        do_merge e backups backup_id h = Inl (MergingFailed backup_id)) \<and>
     (find_backups backup_id backups 0 None (INVALID_BACKUP_ID e) = Inr (Some d', Some f) \<and>
      merge_loop e f d' f (backups, h) = Inr (backups1, h1) \<and>
      pgBackupValidate e h1 (backups1 ! f) \<noteq> BACKUP_STATUS_CORRUPT \<longrightarrow>
        do_merge e backups backup_id h =
          Inr (backups1[f := (backups1 ! f)\<lparr>status := pgBackupValidate e h1 (backups1 ! f)\<rparr>],
               h1 @ [PgBackupValidate (start_time (backups1 ! f)) (status (backups1 ! f))]))"
proof -
  assume p: "backup_id \<noteq> INVALID_BACKUP_ID e \<and> instance_name e \<noteq> None"
  have 1: "(\<forall>b\<in>set backups. start_time b \<noteq> backup_id) \<longrightarrow>
        do_merge e backups backup_id h = Inl (TargetNotFound backup_id)"
  proof
    assume "\<forall>b\<in>set backups. start_time b \<noteq> backup_id"
    from find_backups_no_match [OF this, of 0 "INVALID_BACKUP_ID e"] p
    show "do_merge e backups backup_id h = Inl (TargetNotFound backup_id)"
      by (auto simp: do_merge_def)
  qed
  have 2: "sorted_wrt (\<lambda>a b. start_time b < start_time a) backups \<and>
      d < length backups \<and> start_time (backups ! d) = backup_id \<and>
      (status (backups ! d) = BACKUP_STATUS_OK \<or> status (backups ! d) = BACKUP_STATUS_MERGING \<or>
       status (backups ! d) = BACKUP_STATUS_DELETING) \<and>
      backup_mode (backups ! d) \<noteq> BACKUP_MODE_FULL \<and>
      (\<forall>a\<in>set (ancestors (drop (Suc d) backups) (parent_backup (backups ! d))).
         (status a = BACKUP_STATUS_OK \<or> status a = BACKUP_STATUS_MERGING) \<and>
         backup_mode a \<noteq> BACKUP_MODE_FULL) \<longrightarrow>
        do_merge e backups backup_id h = Inl (ParentFullNotFound backup_id)"
  proof
    assume a: "sorted_wrt (\<lambda>a b. start_time b < start_time a) backups \<and>
      d < length backups \<and> start_time (backups ! d) = backup_id \<and>
      (status (backups ! d) = BACKUP_STATUS_OK \<or> status (backups ! d) = BACKUP_STATUS_MERGING \<or>
       status (backups ! d) = BACKUP_STATUS_DELETING) \<and>
      backup_mode (backups ! d) \<noteq> BACKUP_MODE_FULL \<and>
      (\<forall>a\<in>set (ancestors (drop (Suc d) backups) (parent_backup (backups ! d))).
         (status a = BACKUP_STATUS_OK \<or> status a = BACKUP_STATUS_MERGING) \<and>
         backup_mode a \<noteq> BACKUP_MODE_FULL)"
    then have "find_backups backup_id backups 0 None (INVALID_BACKUP_ID e) = Inr (Some d, None)"
      by (intro find_backups_broken_chain) simp_all
    with p show "do_merge e backups backup_id h = Inl (ParentFullNotFound backup_id)"
      by (simp add: do_merge_def)
  qed
  have 3: "find_backups backup_id backups 0 None (INVALID_BACKUP_ID e) = Inr (Some d', Some f) \<and>
      merge_loop e f d' f (backups, h) = Inr (backups1, h1) \<and>
      pgBackupValidate e h1 (backups1 ! f) = BACKUP_STATUS_CORRUPT \<longrightarrow>
        do_merge e backups backup_id h = Inl (MergingFailed backup_id)"
    using p by (auto simp add: do_merge_def Let_def)
  have 4: "find_backups backup_id backups 0 None (INVALID_BACKUP_ID e) = Inr (Some d', Some f) \<and>
      merge_loop e f d' f (backups, h) = Inr (backups1, h1) \<and>
      pgBackupValidate e h1 (backups1 ! f) \<noteq> BACKUP_STATUS_CORRUPT \<longrightarrow>
        do_merge e backups backup_id h =
          Inr (backups1[f := (backups1 ! f)\<lparr>status := pgBackupValidate e h1 (backups1 ! f)\<rparr>],
               h1 @ [PgBackupValidate (start_time (backups1 ! f)) (status (backups1 ! f))])"
    using p by (auto simp add: do_merge_def Let_def)
  from 1 2 3 4 show ?thesis by blast
qed

theorem do_merge_not_found_and_final_validation_witness:
  "do_merge env0 catalog_siblings 5 [] = Inl (TargetNotFound 5) \<and>
   do_merge env0 catalog_broken 3 [] = Inl (ParentFullNotFound 3) \<and>
   (\<exists>backups1 h1. merge_loop env_corrupt 1 0 1 ([delta0, full0], []) = Inr (backups1, h1)) \<and>
   do_merge env_corrupt [delta0, full0] 3 [] = Inl (MergingFailed 3) \<and>
   map_sum id (\<lambda>r. last (snd r)) (do_merge env0 [delta0, full0] 3 []) =
     Inr (PgBackupValidate 3 BACKUP_STATUS_OK)"
proof -
  have p5: "(5::int) \<noteq> INVALID_BACKUP_ID env0 \<and> instance_name env0 \<noteq> None"
    by (simp add: env0_def)
  have p3: "(3::int) \<noteq> INVALID_BACKUP_ID env0 \<and> instance_name env0 \<noteq> None"
    by (simp add: env0_def)
  have pc: "(3::int) \<noteq> INVALID_BACKUP_ID env_corrupt \<and> instance_name env_corrupt \<noteq> None"
    by (simp add: env_corrupt_def env0_def)
  have a: "do_merge env0 catalog_siblings 5 [] = Inl (TargetNotFound 5)"
    using do_merge_not_found_and_final_validation [OF p5, of catalog_siblings "[]"]
    by (simp add: catalog_siblings_def delta0_def full0_def)
  have b: "do_merge env0 catalog_broken 3 [] = Inl (ParentFullNotFound 3)"
    using do_merge_not_found_and_final_validation [OF p3, of catalog_broken "[]" 0]
    by (simp add: catalog_broken_def delta0_def full0_def)
  have l: "\<exists>backups1 h1. merge_loop env_corrupt 1 0 1 ([delta0, full0], []) = Inr (backups1, h1)"
    by (simp add: eval_do_merge env_corrupt_def env0_def delta0_def full0_def)
  then obtain backups1 h1 where
    l1: "merge_loop env_corrupt 1 0 1 ([delta0, full0], []) = Inr (backups1, h1)"
    by blast
  have c: "do_merge env_corrupt [delta0, full0] 3 [] = Inl (MergingFailed 3)"
    using do_merge_not_found_and_final_validation
            [OF pc, of "[delta0, full0]" "[]" 0 0 1 backups1 h1] l1
    by (auto simp add: eval_do_merge env_corrupt_def env0_def delta0_def full0_def)
  have "\<exists>backups2 h2. merge_loop env0 1 0 1 ([delta0, full0], []) = Inr (backups2, h2)"
    by (simp add: eval_do_merge env0_def delta0_def full0_def)
  then obtain backups2 h2 where
    l2: "merge_loop env0 1 0 1 ([delta0, full0], []) = Inr (backups2, h2)"
    by blast
  have d: "map_sum id (\<lambda>r. last (snd r)) (do_merge env0 [delta0, full0] 3 []) =
     Inr (PgBackupValidate 3 BACKUP_STATUS_OK)"
    using do_merge_not_found_and_final_validation
            [OF p3, of "[delta0, full0]" "[]" 0 0 1 backups2 h2] l2
    by (auto simp add: eval_do_merge env0_def delta0_def full0_def)
  from a b l c d show ?thesis by simp
qed

text \<open>
  Claim C1 at a catalog in which the DELTA backups 3 and 2 both have the FULL backup
  1 as their parent, backup 2 having failed (status ERROR). The merge of backup 3
  finds the destination at index 0 and the FULL backup at index 2 and calls
  \<^verbatim>\<open>merge_backups\<close> twice, first with the backup at index 1, which is backup 2, then
  with the destination. The parent chain of the destination is 3, 1: backup 2 is
  not in it, and the scan has not checked its status. With assertion checking the
  assertion of \<^verbatim>\<open>merge_backups\<close> on the status of its source fails on it. The calls
  are the same when backup 2 is in status OK.
\<close>

theorem merge_passes_backup_outside_chain:
  "map_sum id (\<lambda>r. merge_calls (snd r)) (do_merge env0 catalog_failed_sibling 3 []) =
     Inr [(2, 1), (2, 0)] \<and>
   map start_time (parent_chain catalog_failed_sibling 0) = [3, 1] \<and>
   start_time (catalog_failed_sibling ! 1) = 2 \<and>
   status (catalog_failed_sibling ! 1) = BACKUP_STATUS_OTHER ''ERROR'' \<and>
   do_merge (env0\<lparr>USE_ASSERT_CHECKING := True\<rparr>) catalog_failed_sibling 3 [] =
     Inl AssertionFailed \<and>
   map_sum id (\<lambda>r. merge_calls (snd r)) (do_merge env0 catalog_siblings 3 []) =
     Inr [(2, 1), (2, 0)] \<and>
   map start_time (parent_chain catalog_siblings 0) = [3, 1]"
  by (simp add: eval_do_merge parent_chain_def catalog_siblings_def catalog_failed_sibling_def
        env0_def delta0_def full0_def)

section \<open>Properties of the resume of an interrupted merge\<close>

text \<open>A source in status DELETING: with assertion checking \<^verbatim>\<open>merge_backups\<close> stops
  before the test of line 241, and without it the source has been validated in that
  status when the test is reached. From the test on \<^verbatim>\<open>to_extra\<close> is NULL, so the merge
  stops at the first entry of the destination's file list with a nonzero
  \<^verbatim>\<open>extra_dir_num\<close>.\<close>

lemma validate_backups_deleting:
  "status from_b = BACKUP_STATUS_DELETING \<Longrightarrow>
     (USE_ASSERT_CHECKING e \<longrightarrow> isl (validate_backups e to_b from_b h)) \<and>
     (validate_backups e to_b from_b h = Inr (to1, from1, h1) \<longrightarrow>
        h1 \<noteq> [] \<and> last h1 = PgBackupValidate (start_time from_b) BACKUP_STATUS_DELETING)"
  by (auto simp: validate_backups_def Let_def split: if_splits)

lemma delete_stale_files_null:
  "\<exists>x\<in>set to_files'. extra_dir_num x \<noteq> 0 \<Longrightarrow>
     delete_stale_files e p files None fe to_files' h = Inl NullPointer"
proof (induction to_files' arbitrary: h)
  case Nil
  then show ?case by simp
next
  case (Cons x rest)
  show ?case
  proof (cases "extra_dir_num x = 0")
    case True
    with Cons.prems have "\<exists>x\<in>set rest. extra_dir_num x \<noteq> 0" by simp
    from Cons.IH [OF this] True show ?thesis by simp
  next
    case False
    then show ?thesis by simp
  qed
qed

lemma merge_backups_resume_null:
  "validate_backups e (backups ! t) (backups ! f) (h @ [CallMergeBackups t f])
       = Inr (to1, from1, h1) \<Longrightarrow>
   status from1 = BACKUP_STATUS_DELETING \<Longrightarrow>
   \<exists>x\<in>set (qsort_PathDesc e
              (dir_read_file_list e h1 (BackupPath (start_time to1) (Some DATABASE_FILE_LIST)))).
      extra_dir_num x \<noteq> 0 \<Longrightarrow>
   merge_backups e t f (backups, h) = Inl NullPointer"
  by (simp add: merge_backups_def Let_def delete_source_backup_def delete_stale_files_null)

text \<open>
  Claim C7 at the catalog of an interrupted merge: the destination of the command,
  in status DELETING, is admitted by \<^verbatim>\<open>do_merge\<close> and is the source of the pair
  merge. With assertion checking the assertion on its status fails; without, it is
  validated in status DELETING, before the test that jumps to the deletion.
\<close>

theorem deleting_source_is_validated:
  "do_merge (env0\<lparr>USE_ASSERT_CHECKING := True\<rparr>) catalog_resume 3 [] = Inl AssertionFailed \<and>
   map_sum id (\<lambda>r. take 3 (snd r)) (do_merge env0 catalog_resume 3 []) =
     Inr [CallMergeBackups 1 0, PgBackupValidate 1 BACKUP_STATUS_OK,
          PgBackupValidate 3 BACKUP_STATUS_DELETING]"
  by (simp add: eval_do_merge catalog_resume_def env0_def delta0_def full0_def)

text \<open>
  Claim C10 at the catalog of an interrupted merge of backups with an extra
  directory: the source is in status DELETING, the jump to \<^verbatim>\<open>delete_source_backup\<close>
  leaves \<^verbatim>\<open>to_extra\<close> NULL, and the file list of the destination has an entry with
  \<^verbatim>\<open>extra_dir_num\<close> 1, for which \<^verbatim>\<open>to_extra\<close> is read as an array. With the source
  in status OK the same merge succeeds.
\<close>

theorem resume_reads_null_to_extra:
  "do_merge env_extra_file catalog_resume_extra 3 [] = Inl NullPointer \<and>
   \<not> isl (do_merge env_extra_file catalog_extra 3 [])"
  by (simp add: eval_do_merge catalog_resume_extra_def catalog_extra_def env_extra_file_def
        env0_def delta0_def full0_def file_extra_def file0_def parray_get_def parray_bsearch_def
        reorder_extra_dirs_def get_extra_index_def)

end
